theory Spec2Isabelle
  imports Complex_Main
begin

section \<open>Data model\<close>

text \<open>
  The forecasting core of \<^verbatim>\<open>src/l.js\<close>. JavaScript numbers that hold counts, digits and
  lengths are natural numbers; JavaScript numbers that hold ratios, scores and confidences
  are modelled as exact reals, so the rounding of IEEE doubles is not part of the model.
  A function of the source that can throw returns a sum whose left injection is the
  exception. A JavaScript array of numbers may have holes: it is a list of options with
  \<open>None\<close> for a hole, which \<^verbatim>\<open>map\<close>, \<^verbatim>\<open>filter\<close>, \<^verbatim>\<open>forEach\<close> and \<^verbatim>\<open>reduce\<close> skip,
  \<^verbatim>\<open>length\<close> counts and an index reads as \<^verbatim>\<open>undefined\<close>.
\<close>

datatype js_error = TypeError

datatype label = BIG | SMALL

text \<open>A validated record, as \<^verbatim>\<open>fetchData\<close> builds it (\<^verbatim>\<open>number\<close> is a digit 0..9).\<close>

record outcome =
  issueNumber :: string
  number :: nat
  bigSmall :: label
  binary :: nat
  timestamp :: nat

text \<open>
  An element of an array handed to the trainer: a record, \<^verbatim>\<open>null\<close> or \<^verbatim>\<open>undefined\<close>
  (\<open>Null\<close>), or a hole of a sparse array.
\<close>

datatype element = Rec outcome | Null | Hole

definition toBigSmall :: "int \<Rightarrow> label" where
  "toBigSmall n = (if n \<ge> 5 then BIG else SMALL)"

definition toBinary :: "int \<Rightarrow> nat" where
  "toBinary n = (if n \<ge> 5 then 1 else 0)"

text \<open>
  An entry of \<^verbatim>\<open>patternDatabase\<close> or \<^verbatim>\<open>markovChains\<close>: \<^verbatim>\<open>{ counts, total }\<close>. Every
  \<^verbatim>\<open>counts\<close> array of the source is created by \<^verbatim>\<open>new Array(10).fill(0)\<close>.
\<close>

record stats =
  counts :: "nat list"
  total_count :: nat

type_synonym table = "string \<rightharpoonup> stats"

text \<open>The trend windows are slices of a mapped array and keep its holes.\<close>

record trend_analyzer =
  shortTerm :: "nat option list"
  mediumTerm :: "nat option list"
  longTerm :: "nat option list"

text \<open>The results of \<^verbatim>\<open>calculateStats\<close>, \<^verbatim>\<open>performRunsTest\<close> and \<^verbatim>\<open>assessRandomnessQuality\<close>.\<close>

record stat_summary =
  mean :: real
  std :: real
  variance :: real

record runs_test =
  runs :: nat
  expected :: real
  zScore :: real

record randomness =
  entropy :: real
  runsZ :: real
  spectralBias :: real
  isExploitable :: bool
  quality :: real

text \<open>
  \<^verbatim>\<open>marketState\<close>. The initial object has no \<^verbatim>\<open>isExploitable\<close> property: the field is
  \<open>None\<close> until \<^verbatim>\<open>analyzeMarketState\<close> writes it, and the source only tests its truthiness.
\<close>

record market_state =
  volatility :: real
  bias :: real
  entropy :: real
  recentTrend :: string
  confidence :: real
  lastUpdate :: nat
  randomnessQuality :: real
  isExploitable :: "bool option"

definition truthy :: "bool option \<Rightarrow> bool" where
  "truthy b = (b = Some True)"

record lstm_cell =
  Wi :: "real list list"
  Wf :: "real list list"
  Wo :: "real list list"
  Wc :: "real list list"
  Ui :: "real list list"
  Uf :: "real list list"
  Uo :: "real list list"
  Uc :: "real list list"
  bi :: "real list"
  bf :: "real list"
  bo :: "real list"
  bc :: "real list"
  hidden :: "real list"
  cell :: "real list"

text \<open>
  The keys of \<^verbatim>\<open>CONFIG.INITIAL_WEIGHTS\<close>, in insertion order. \<^verbatim>\<open>modelWeights\<close> and
  \<^verbatim>\<open>modelPerformance\<close> are created with exactly these keys, and no statement of the source
  removes one or writes anything but a number under one, so on these keys both objects are
  total functions on \<open>model\<close>. \<^verbatim>\<open>modelPerformance\<close> never gets another key;
  \<^verbatim>\<open>modelWeights\<close> can (see \<^verbatim>\<open>updateModelWeights\<close>), and the state keeps those apart.
\<close>

datatype model = Pattern | Markov | Frequency | Neural | Trend | Quantum

definition models :: "model list" where
  "models = [Pattern, Markov, Frequency, Neural, Trend, Quantum]"

definition model_of_name :: "string \<Rightarrow> model option" where
  "model_of_name s =
     (if s = ''pattern'' then Some Pattern
      else if s = ''markov'' then Some Markov
      else if s = ''frequency'' then Some Frequency
      else if s = ''neural'' then Some Neural
      else if s = ''trend'' then Some Trend
      else if s = ''quantum'' then Some Quantum
      else None)"

text \<open>
  \<^verbatim>\<open>modelPerformance[modelName]\<close> on the plain object: an own entry for the six names; for a
  name \<^verbatim>\<open>Object.prototype\<close> defines, the inherited value, which is \<^verbatim>\<open>Object.prototype\<close>
  itself for \<^verbatim>\<open>__proto__\<close> and a function for the others; \<^verbatim>\<open>undefined\<close> for every other
  name, or \<^verbatim>\<open>NaN\<close> once the program has put a property of that name on the prototype, both
  falsy.
\<close>

datatype perf_lookup = OwnEntry model | ObjectPrototype | PrototypeMethod | Missing

definition Object_prototype_methods :: "string list" where
  "Object_prototype_methods =
     [''constructor'', ''__defineGetter__'', ''__defineSetter__'', ''hasOwnProperty'',
      ''__lookupGetter__'', ''__lookupSetter__'', ''isPrototypeOf'', ''propertyIsEnumerable'',
      ''toString'', ''valueOf'', ''toLocaleString'']"

definition lookup_performance :: "string \<Rightarrow> perf_lookup" where
  "lookup_performance s =
     (case model_of_name s of
        Some k \<Rightarrow> OwnEntry k
      | None \<Rightarrow>
          if s = ''__proto__'' then ObjectPrototype
          else if s \<in> set Object_prototype_methods then PrototypeMethod
          else Missing)"

record performance =
  wins :: nat
  total_preds :: nat
  recentAccuracy :: real

text \<open>
  The module-level variables (\<^verbatim>\<open>GLOBAL STATE\<close>) that the modelled functions read or write,
  and two things \<^verbatim>\<open>updateModelWeights\<close> can write besides: \<open>extraWeights\<close>, the own
  properties of \<^verbatim>\<open>modelWeights\<close> other than the six model keys, in insertion order, with
  \<open>None\<close> for the value \<^verbatim>\<open>NaN\<close>; and \<open>prototypeProps\<close>, the names of the enumerable
  properties the program has put on \<^verbatim>\<open>Object.prototype\<close>, each holding \<^verbatim>\<open>NaN\<close>.
\<close>

record state =
  dataBuffer :: "outcome list"
  consecutiveWins :: nat
  consecutiveLosses :: nat
  modelWeights :: "model \<Rightarrow> real"
  modelPerformance :: "model \<Rightarrow> performance"
  lstmCell :: "lstm_cell option"
  patternDatabase :: table
  markovChains :: table
  trendAnalyzer :: trend_analyzer
  marketState :: market_state
  isTraining :: bool
  extraWeights :: "(string \<times> real option) list"
  prototypeProps :: "string list"

definition INITIAL_WEIGHTS :: "model \<Rightarrow> real" where
  "INITIAL_WEIGHTS m = (case m of Pattern \<Rightarrow> 0.15 | Markov \<Rightarrow> 0.15 | Frequency \<Rightarrow> 0.15
                        | Neural \<Rightarrow> 0.20 | Trend \<Rightarrow> 0.15 | Quantum \<Rightarrow> 0.20)"

definition SEQUENCE_LENGTHS :: "nat list" where
  "SEQUENCE_LENGTHS = [3, 4, 5, 6, 7, 8]"

definition MARKOV_ORDER :: nat where
  "MARKOV_ORDER = 3"

definition initial_state :: state where
  "initial_state =
     \<lparr> dataBuffer = [],
       consecutiveWins = 0,
       consecutiveLosses = 0,
       modelWeights = INITIAL_WEIGHTS,
       modelPerformance = (\<lambda>m. \<lparr> wins = 0, total_preds = 0, recentAccuracy = 0.5 \<rparr>),
       lstmCell = None,
       patternDatabase = Map.empty,
       markovChains = Map.empty,
       trendAnalyzer = \<lparr> shortTerm = [], mediumTerm = [], longTerm = [] \<rparr>,
       marketState = \<lparr> volatility = 0, bias = 0.5, entropy = 0, recentTrend = ''NEUTRAL'',
                       confidence = 0.5, lastUpdate = 0, randomnessQuality = 1.0,
                       isExploitable = None \<rparr>,
       isTraining = False,
       extraWeights = [],
       prototypeProps = [] \<rparr>"

section \<open>Utilities\<close>

text \<open>\<^verbatim>\<open>String(n)\<close> for a natural number, and \<^verbatim>\<open>Array.prototype.join\<close> on strings.\<close>

fun dec :: "nat \<Rightarrow> string" where
  "dec n = (if n < 10 then [''0123456789'' ! n]
            else dec (n div 10) @ [''0123456789'' ! (n mod 10)])"

fun join :: "string \<Rightarrow> string list \<Rightarrow> string" where
  "join sep [] = []"
| "join sep [x] = x"
| "join sep (x # y # ys) = x @ sep @ join sep (y # ys)"

text \<open>\<^verbatim>\<open>String.prototype.includes\<close>: does \<open>sub\<close> occur in \<open>s\<close>.\<close>

fun includes_str :: "string \<Rightarrow> string \<Rightarrow> bool" where
  "includes_str [] sub = (sub = [])"
| "includes_str (c # cs) sub = (take (length sub) (c # cs) = sub \<or> includes_str cs sub)"

text \<open>
  \<^verbatim>\<open>Math.max(...xs)\<close> and \<^verbatim>\<open>xs.indexOf(v)\<close> on an array of counts. (On the empty array
  JavaScript's maximum is \<^verbatim>\<open>-Infinity\<close>; the model has 0 there. No array of counts in the
  source is empty.)
\<close>

definition Math_max :: "nat list \<Rightarrow> nat" where
  "Math_max xs = fold max xs 0"

fun indexOf :: "nat list \<Rightarrow> nat \<Rightarrow> int" where
  "indexOf [] v = - 1"
| "indexOf (x # xs) v = (if x = v then 0 else (let i = indexOf xs v in if i < 0 then - 1 else i + 1))"

text \<open>The elements of a sparse array that exist, in order.\<close>

fun present :: "'a option list \<Rightarrow> 'a list" where
  "present [] = []"
| "present (None # xs) = present xs"
| "present (Some x # xs) = x # present xs"

text \<open>The text \<^verbatim>\<open>join\<close> writes for an element: nothing for a hole.\<close>

definition key_part :: "nat option \<Rightarrow> string" where
  "key_part x = (case x of None \<Rightarrow> [] | Some n \<Rightarrow> dec n)"

text \<open>Addition of JavaScript numbers, \<open>None\<close> being \<^verbatim>\<open>NaN\<close>.\<close>

definition js_add :: "real option \<Rightarrow> real option \<Rightarrow> real option" where
  "js_add a b = (case a of None \<Rightarrow> None
                 | Some x \<Rightarrow> (case b of None \<Rightarrow> None | Some y \<Rightarrow> Some (x + y)))"

definition sigmoid :: "real \<Rightarrow> real" where
  "sigmoid x = (if x > 700 then 1 else if x < - 700 then 0 else 1 / (1 + exp (- x)))"

definition calculateStats :: "real option list \<Rightarrow> stat_summary" where
  "calculateStats arr =
     (if arr = [] then \<lparr> mean = 0, std = 0, variance = 0 \<rparr>
      else
        let m = foldl (\<lambda>a b. a + b) 0 (present arr) / real (length arr);
            v = foldl (\<lambda>sum val. sum + (val - m) ^ 2) 0 (present arr) / real (length arr)
        in \<lparr> mean = m, std = sqrt v, variance = v \<rparr>)"

text \<open>
  \<^verbatim>\<open>calculateEntropy\<close>: \<^verbatim>\<open>freq\<close> maps each value of the array to its number of occurrences;
  its keys are integers, which \<^verbatim>\<open>Object.values\<close> visits in ascending order.
\<close>

definition calculateEntropy :: "nat option list \<Rightarrow> real" where
  "calculateEntropy arr =
     (if arr = [] then 0
      else foldl (\<lambda>e val.
                    let p = real (count_list (present arr) val) / real (length arr)
                    in if p > 0 then e - p * log 2 p else e)
             0 (sorted_list_of_set (set (present arr))))"

text \<open>
  \<^verbatim>\<open>performRunsTest\<close> compares neighbours by index, so a hole is \<^verbatim>\<open>undefined\<close> there: equal
  to another hole and different from every number.
\<close>

definition performRunsTest :: "nat option list \<Rightarrow> runs_test" where
  "performRunsTest bits =
     (if length bits < 10 then \<lparr> runs = 0, expected = 0, zScore = 0 \<rparr>
      else
        let r = 1 + length (filter (\<lambda>i. bits ! i \<noteq> bits ! (i - 1)) [1..<length bits]);
            n = real (length bits);
            n1 = real (length (filter (\<lambda>b. b = Some 1) bits));
            n0 = n - n1;
            ex = (2 * n0 * n1) / n + 1;
            v = (2 * n0 * n1 * (2 * n0 * n1 - n)) / (n ^ 2 * (n - 1));
            z = (if v > 0 then (real r - ex) / sqrt v else 0)
        in \<lparr> runs = r, expected = ex, zScore = z \<rparr>)"

text \<open>
  \<^verbatim>\<open>spectralTest\<close>: an entry of \<^verbatim>\<open>diffs\<close> is \<open>None\<close> when it is a hole (the later element is
  one) or \<^verbatim>\<open>NaN\<close> (the earlier element is one); neither is counted by the filter.
\<close>

definition spectralTest :: "nat option list \<Rightarrow> real" where
  "spectralTest arr =
     (let diffs = map (\<lambda>i. case arr ! (i + 1) of
                              None \<Rightarrow> None
                            | Some v \<Rightarrow> (case arr ! i of
                                          None \<Rightarrow> None
                                        | Some u \<Rightarrow> Some (int v - int u)))
                   [0..<length arr - 1];
          highFreq = length (filter (\<lambda>d. case d of None \<Rightarrow> False | Some x \<Rightarrow> \<bar>x\<bar> \<ge> 3) diffs)
      in real highFreq / real (if length diffs = 0 then 1 else length diffs))"

definition assessRandomnessQuality :: "nat option list \<Rightarrow> randomness" where
  "assessRandomnessQuality bits =
     (let e = calculateEntropy bits;
          runsTest = performRunsTest bits;
          sb = spectralTest bits;
          ex = (e < 0.92 \<and> \<bar>zScore runsTest\<bar> > 1.96)
      in \<lparr> randomness.entropy = e, runsZ = zScore runsTest, spectralBias = sb,
           randomness.isExploitable = ex, quality = 1 - e / log 2 2 \<rparr>)"

section \<open>Data buffer\<close>

text \<open>
  \<^verbatim>\<open>updateDataBuffer\<close>: the set of known period ids is computed once, each new item whose id
  is not in that set is \<^verbatim>\<open>unshift\<close>ed, and the buffer is cut to its first 200 entries.
\<close>

definition updateDataBuffer :: "outcome list \<Rightarrow> state \<Rightarrow> outcome list \<times> state" where
  "updateDataBuffer newData st =
     (let existingPeriods = set (map issueNumber (dataBuffer st));
          buf = fold (\<lambda>item b. if issueNumber item \<notin> existingPeriods then item # b else b)
                  newData (dataBuffer st);
          buf' = (if length buf > 200 then take 200 buf else buf)
      in (buf', st\<lparr>dataBuffer := buf'\<rparr>))"

text \<open>A sequence of ingests, one batch after the other.\<close>

definition ingest :: "outcome list list \<Rightarrow> state \<Rightarrow> state" where
  "ingest batches st = fold (\<lambda>batch s. snd (updateDataBuffer batch s)) batches st"

section \<open>Market analysis\<close>

text \<open>
  The trainer and the analyzer receive their array as a parameter. \<open>map_field f data\<close> is
  \<^verbatim>\<open>data.map(d => d.f)\<close>: the property access throws a \<^verbatim>\<open>TypeError\<close> on \<^verbatim>\<open>null\<close> and
  \<^verbatim>\<open>undefined\<close>, and a hole is not visited and stays a hole.
\<close>

fun map_field :: "(outcome \<Rightarrow> 'a) \<Rightarrow> element list \<Rightarrow> js_error + 'a option list" where
  "map_field f [] = Inr []"
| "map_field f (Null # ds) = Inl TypeError"
| "map_field f (Hole # ds) =
     (case map_field f ds of Inl e \<Rightarrow> Inl e | Inr vs \<Rightarrow> Inr (None # vs))"
| "map_field f (Rec d # ds) =
     (case map_field f ds of Inl e \<Rightarrow> Inl e | Inr vs \<Rightarrow> Inr (Some (f d) # vs))"

text \<open>
  \<^verbatim>\<open>analyzeMarketState\<close>; \<open>now\<close> is the value of \<^verbatim>\<open>Date.now()\<close>. The result is the returned
  market state or the exception, with the state the call leaves behind.
\<close>

definition analyzeMarketState ::
  "nat \<Rightarrow> element list \<Rightarrow> state \<Rightarrow> (js_error + market_state) \<times> state" where
  "analyzeMarketState now data st =
     (if length data < 30 then (Inr (marketState st), st)
      else
        let recent50 = take (min 50 (length data)) data in
        case map_field binary recent50 of
          Inl e \<Rightarrow> (Inl e, st)
        | Inr bits \<Rightarrow>
        case map_field number recent50 of
          Inl e \<Rightarrow> (Inl e, st)
        | Inr numbers \<Rightarrow>
            let stats = calculateStats (map (map_option real) numbers);
                vol = std stats / (mean stats + 0.001);
                ent = calculateEntropy bits;
                bigCount = length (filter (\<lambda>b. b = Some 1) bits);
                bs = real bigCount / real (length bits);
                recent10 = take 10 bits;
                bigRecent = length (filter (\<lambda>b. b = Some 1) recent10);
                trend = (if bigRecent \<ge> 7 then ''STRONG_BIG''
                         else if bigRecent \<ge> 6 then ''BIAS_BIG''
                         else if bigRecent \<le> 3 then ''STRONG_SMALL''
                         else if bigRecent \<le> 4 then ''BIAS_SMALL''
                         else ''NEUTRAL'');
                rq = assessRandomnessQuality bits;
                conf = 1 - \<bar>bs - 0.5\<bar> * 2;
                ms = \<lparr> volatility = vol, bias = bs, entropy = ent, recentTrend = trend,
                       confidence = max 0.3 (min 0.9 conf), lastUpdate = now,
                       randomnessQuality = quality rq,
                       isExploitable = Some (randomness.isExploitable rq) \<rparr>
            in (Inr ms, st\<lparr>marketState := ms\<rparr>))"

section \<open>Recurrent cell\<close>

text \<open>The result of a predictor: \<^verbatim>\<open>{ prediction, confidence, source }\<close>.\<close>

record pred =
  prediction :: label
  confidence :: real
  source :: string

text \<open>
  \<^verbatim>\<open>createLSTMCell\<close>. \<open>rnd k\<close> is the value of the \<open>k\<close>-th call of \<^verbatim>\<open>Math.random()\<close>
  made while the cell is built: the four input matrices row by row, then the four
  recurrent matrices.
\<close>

definition createLSTMCell :: "(nat \<Rightarrow> real) \<Rightarrow> nat \<Rightarrow> nat \<Rightarrow> lstm_cell" where
  "createLSTMCell rnd inputSize hiddenSize =
     (let initWeight = (\<lambda>k. (rnd k * 2 - 1) * 0.1);
          mat = (\<lambda>off cols. map (\<lambda>j. map (\<lambda>i. initWeight (off + j * cols + i)) [0..<cols])
                                [0..<hiddenSize]);
          a = hiddenSize * inputSize;
          b = hiddenSize * hiddenSize
      in \<lparr> Wi = mat 0 inputSize, Wf = mat a inputSize,
           Wo = mat (2 * a) inputSize, Wc = mat (3 * a) inputSize,
           Ui = mat (4 * a) hiddenSize, Uf = mat (4 * a + b) hiddenSize,
           Uo = mat (4 * a + 2 * b) hiddenSize, Uc = mat (4 * a + 3 * b) hiddenSize,
           bi = replicate hiddenSize 0, bf = replicate hiddenSize 0,
           bo = replicate hiddenSize 0, bc = replicate hiddenSize 0,
           hidden = replicate hiddenSize 0, cell = replicate hiddenSize 0 \<rparr>)"

text \<open>
  \<^verbatim>\<open>row.reduce((sum, w, i) => sum + w * xs[i], 0)\<close>. (Where \<open>xs\<close> is shorter than the row,
  JavaScript adds \<^verbatim>\<open>NaN\<close>; the cells and inputs of the source have matching lengths.)
\<close>

definition dot :: "real list \<Rightarrow> real list \<Rightarrow> real" where
  "dot row xs = foldl (\<lambda>sum i. sum + row ! i * xs ! i) 0 [0..<length row]"

text \<open>
  One iteration of \<^verbatim>\<open>forwardLSTM\<close>. \<^verbatim>\<open>cell.Wi[j].reduce\<close> throws a
  \<^verbatim>\<open>TypeError\<close> when a matrix has no row \<open>j\<close>.
\<close>

definition rows_present :: "lstm_cell \<Rightarrow> nat \<Rightarrow> bool" where
  "rows_present c j =
     (j < length (Wi c) \<and> j < length (Ui c) \<and> j < length (Wf c) \<and> j < length (Uf c)
      \<and> j < length (Wc c) \<and> j < length (Uc c) \<and> j < length (Wo c) \<and> j < length (Uo c))"

definition lstm_unit :: "lstm_cell \<Rightarrow> real list \<Rightarrow> nat \<Rightarrow> js_error + real \<times> real" where
  "lstm_unit c input j =
     (if \<not> rows_present c j then Inl TypeError
      else
        let hPrev = hidden c;
            cPrev = cell c;
            inputGate = sigmoid (dot (Wi c ! j) input + dot (Ui c ! j) hPrev + bi c ! j);
            forgetGate = sigmoid (dot (Wf c ! j) input + dot (Uf c ! j) hPrev + bf c ! j);
            candidate = tanh (dot (Wc c ! j) input + dot (Uc c ! j) hPrev + bc c ! j);
            newC = forgetGate * cPrev ! j + inputGate * candidate;
            outputGate = sigmoid (dot (Wo c ! j) input + dot (Uo c ! j) hPrev + bo c ! j);
            newH = outputGate * tanh newC
        in Inr (newH, newC))"

fun lstm_loop :: "lstm_cell \<Rightarrow> real list \<Rightarrow> nat list \<Rightarrow> js_error + real list \<times> real list" where
  "lstm_loop c input [] = Inr ([], [])"
| "lstm_loop c input (j # js) =
     (case lstm_unit c input j of
        Inl e \<Rightarrow> Inl e
      | Inr (newH, newC) \<Rightarrow>
          (case lstm_loop c input js of
             Inl e \<Rightarrow> Inl e
           | Inr (hs, cs) \<Rightarrow> Inr (newH # hs, newC # cs)))"

text \<open>The cell is written only after the last iteration, so an exception leaves it as it was.\<close>

definition forwardLSTM :: "lstm_cell \<Rightarrow> real list \<Rightarrow> js_error + real list \<times> lstm_cell" where
  "forwardLSTM c input =
     (case lstm_loop c input [0..<length (hidden c)] of
        Inl e \<Rightarrow> Inl e
      | Inr (newHidden, newCell) \<Rightarrow> Inr (newHidden, c\<lparr>hidden := newHidden, cell := newCell\<rparr>))"

definition predictWithLSTM ::
  "(nat \<Rightarrow> real) \<Rightarrow> outcome list \<Rightarrow> state \<Rightarrow> js_error + pred \<times> state" where
  "predictWithLSTM rnd data st =
     (case lstmCell st of
        None \<Rightarrow>
          Inr (\<lparr> prediction = BIG, confidence = 0.50, source = ''lstm_uninitialized'' \<rparr>,
               st\<lparr>lstmCell := Some (createLSTMCell rnd 20 15)\<rparr>)
      | Some c \<Rightarrow>
          let bits = map binary data in
          if length bits < 20 then
            Inr (\<lparr> prediction = BIG, confidence = 0.50, source = ''lstm_insufficient'' \<rparr>, st)
          else
            let input = take 20 bits in
            case forwardLSTM c (map real input) of
              Inl e \<Rightarrow> Inl e
            | Inr (hid, c') \<Rightarrow>
                let outputSum = foldl (\<lambda>sum h. sum + h) 0 hid;
                    output = sigmoid (outputSum / real (length hid));
                    conf = \<bar>output - 0.5\<bar> * 2
                in Inr (\<lparr> prediction = (if output \<ge> 0.5 then BIG else SMALL),
                          confidence = min (conf + 0.10) 0.80, source = ''lstm'' \<rparr>,
                        st\<lparr>lstmCell := Some c'\<rparr>))"

section \<open>Model training\<close>

text \<open>
  \<^verbatim>\<open>stats.counts[next]++; stats.total++\<close> on the entry of \<open>key\<close>, created with ten zero
  counts when it is missing. When \<^verbatim>\<open>next\<close> is \<^verbatim>\<open>undefined\<close> (read from a hole), the increment
  writes a property named \<^verbatim>\<open>undefined\<close> and no element of the array. (Otherwise \<open>nxt\<close> is
  a digit; for an index beyond the array the model leaves the counts as they are.)
\<close>

definition bump :: "table \<Rightarrow> string \<Rightarrow> nat option \<Rightarrow> table" where
  "bump tbl key nxt =
     (let s = (case tbl key of
                 None \<Rightarrow> \<lparr> counts = replicate 10 0, total_count = 0 \<rparr>
               | Some s \<Rightarrow> s)
      in tbl(key \<mapsto> \<lparr> counts = (case nxt of
                                   None \<Rightarrow> counts s
                                 | Some n \<Rightarrow> (counts s)[n := counts s ! n + 1]),
                       total_count = total_count s + 1 \<rparr>))"

text \<open>The nested iteration of \<^verbatim>\<open>trainPatternRecognition\<close>, on the cleared table.\<close>

definition pattern_pass :: "nat option list \<Rightarrow> table" where
  "pattern_pass numbers =
     fold (\<lambda>len tbl.
             fold (\<lambda>i tbl. bump tbl (join [] (map key_part (take len (drop i numbers))))
                              (numbers ! (i + len)))
               [0..<length numbers - len] tbl)
       SEQUENCE_LENGTHS Map.empty"

text \<open>
  A trainer returns the exception it threw, if any, and the state it leaves behind.
  \<^verbatim>\<open>trainPatternRecognition\<close> maps the whole array before it clears the table.
\<close>

definition trainPatternRecognition ::
  "element list \<Rightarrow> state \<Rightarrow> js_error option \<times> state" where
  "trainPatternRecognition data st =
     (case map_field number data of
        Inl e \<Rightarrow> (Some e, st)
      | Inr numbers \<Rightarrow> (None, st\<lparr>patternDatabase := pattern_pass numbers\<rparr>))"

text \<open>
  One iteration of the inner loop of \<^verbatim>\<open>trainMarkovChains\<close>: the key is built from the slice,
  then \<^verbatim>\<open>data[i + order].number\<close> is read, which throws when that element is \<^verbatim>\<open>null\<close>,
  \<^verbatim>\<open>undefined\<close> or a hole.
\<close>

definition markov_step ::
  "element list \<Rightarrow> nat \<Rightarrow> nat \<Rightarrow> table \<Rightarrow> js_error + table" where
  "markov_step data order i tbl =
     (case map_field number (take order (drop i data)) of
        Inl e \<Rightarrow> Inl e
      | Inr ds \<Rightarrow>
          (case data ! (i + order) of
             Rec d \<Rightarrow> Inr (bump tbl (join ''-'' (map key_part ds)) (Some (number d)))
           | Null \<Rightarrow> Inl TypeError
           | Hole \<Rightarrow> Inl TypeError))"

fun markov_loop ::
  "element list \<Rightarrow> (nat \<times> nat) list \<Rightarrow> table \<Rightarrow> js_error option \<times> table" where
  "markov_loop data [] tbl = (None, tbl)"
| "markov_loop data ((order, i) # rest) tbl =
     (case markov_step data order i tbl of
        Inl e \<Rightarrow> (Some e, tbl)
      | Inr tbl' \<Rightarrow> markov_loop data rest tbl')"

text \<open>The pairs \<open>(order, i)\<close> the iteration visits: \<open>i \<le> length - order - 1\<close>.\<close>

definition markov_iterations :: "nat \<Rightarrow> (nat \<times> nat) list" where
  "markov_iterations n =
     concat (map (\<lambda>order. map (\<lambda>i. (order, i)) [0..<n - order]) [1..<MARKOV_ORDER + 1])"

text \<open>The table is cleared first; what the iteration wrote before an exception stays.\<close>

definition trainMarkovChains ::
  "element list \<Rightarrow> state \<Rightarrow> js_error option \<times> state" where
  "trainMarkovChains data st =
     (case markov_loop data (markov_iterations (length data)) Map.empty of
        (err, tbl) \<Rightarrow> (err, st\<lparr>markovChains := tbl\<rparr>))"

definition trainTrendAnalyzer ::
  "element list \<Rightarrow> state \<Rightarrow> js_error option \<times> state" where
  "trainTrendAnalyzer data st =
     (case map_field binary data of
        Inl e \<Rightarrow> (Some e, st)
      | Inr bits \<Rightarrow>
          (None, st\<lparr>trendAnalyzer := \<lparr> shortTerm = take 10 bits, mediumTerm = take 30 bits,
                                       longTerm = take 60 bits \<rparr>\<rparr>))"

text \<open>
  The body of the \<^verbatim>\<open>try\<close> block of \<^verbatim>\<open>trainAllModels\<close>. The three trainers are called one
  after the other while the argument of \<^verbatim>\<open>Promise.all\<close> is built, then the analyzer; the
  first exception ends the block.
\<close>

definition train_steps :: "nat \<Rightarrow> element list \<Rightarrow> state \<Rightarrow> js_error option \<times> state" where
  "train_steps now data st =
     (case trainPatternRecognition data st of
        (Some e, st1) \<Rightarrow> (Some e, st1)
      | (None, st1) \<Rightarrow>
     (case trainMarkovChains data st1 of
        (Some e, st2) \<Rightarrow> (Some e, st2)
      | (None, st2) \<Rightarrow>
     (case trainTrendAnalyzer data st2 of
        (Some e, st3) \<Rightarrow> (Some e, st3)
      | (None, st3) \<Rightarrow>
     (case analyzeMarketState now data st3 of
        (Inl e, st4) \<Rightarrow> (Some e, st4)
      | (Inr ms, st4) \<Rightarrow> (None, st4)))))"

text \<open>
  \<^verbatim>\<open>trainAllModels\<close>: the single-flight guard, the \<^verbatim>\<open>try\<close> block, \<^verbatim>\<open>catch\<close> (which only
  logs and returns \<^verbatim>\<open>false\<close>) and \<^verbatim>\<open>finally\<close> (which resets the flag). The value is the
  one the returned promise resolves to.
\<close>

definition trainAllModels :: "nat \<Rightarrow> element list \<Rightarrow> state \<Rightarrow> bool \<times> state" where
  "trainAllModels now data st =
     (if isTraining st then (False, st)
      else
        case train_steps now data (st\<lparr>isTraining := True\<rparr>) of
          (None, st') \<Rightarrow> (True, st'\<lparr>isTraining := False\<rparr>)
        | (Some e, st') \<Rightarrow> (False, st'\<lparr>isTraining := False\<rparr>))"

section \<open>Prediction algorithms\<close>

text \<open>
  One iteration of \<^verbatim>\<open>predictWithPatterns\<close> on \<open>(bestConf, bestPred)\<close>;
  \<open>bestPred\<close> is \<open>None\<close> for \<^verbatim>\<open>null\<close>.
\<close>

definition pattern_step ::
  "table \<Rightarrow> nat list \<Rightarrow> nat \<Rightarrow> real \<times> label option \<Rightarrow> real \<times> label option" where
  "pattern_step tbl numbers len best =
     (if length numbers < len + 1 then best
      else
        let recentPattern = join [] (map dec (take len numbers)) in
        case tbl recentPattern of
          None \<Rightarrow> best
        | Some stats \<Rightarrow>
            if total_count stats \<ge> 3 then
              let maxCount = Math_max (counts stats);
                  predNum = indexOf (counts stats) maxCount;
                  conf = real maxCount / real (total_count stats)
              in if conf > fst best then (conf, Some (toBigSmall predNum)) else best
            else best)"

definition predictWithPatterns :: "outcome list \<Rightarrow> state \<Rightarrow> pred" where
  "predictWithPatterns data st =
     (let numbers = map number data;
          best = fold (pattern_step (patternDatabase st) numbers) SEQUENCE_LENGTHS (0, None)
      in case snd best of
           Some bestPred \<Rightarrow>
             \<lparr> prediction = bestPred, confidence = fst best, source = ''pattern'' \<rparr>
         | None \<Rightarrow>
             let recentBig = length (filter (\<lambda>d. bigSmall d = BIG) (take 10 data))
             in \<lparr> prediction = (if recentBig \<ge> 5 then BIG else SMALL), confidence = 0.52,
                  source = ''pattern_fallback'' \<rparr>)"

text \<open>
  The search of \<^verbatim>\<open>predictWithMarkov\<close> over the orders it is given; \<open>Some\<close> is its
  \<^verbatim>\<open>return\<close>, \<open>None\<close> its falling through.
\<close>

fun markov_try :: "table \<Rightarrow> outcome list \<Rightarrow> nat list \<Rightarrow> pred option" where
  "markov_try tbl data [] = None"
| "markov_try tbl data (order # orders) =
     (if length data < order + 1 then markov_try tbl data orders
      else
        let state = join ''-'' (map dec (map number (take order data))) in
        case tbl state of
          None \<Rightarrow> markov_try tbl data orders
        | Some stats \<Rightarrow>
            if total_count stats \<ge> 2 then
              let maxCount = Math_max (counts stats);
                  predNum = indexOf (counts stats) maxCount;
                  conf = real maxCount / real (total_count stats)
              in Some \<lparr> prediction = toBigSmall predNum, confidence = conf,
                        source = ''markov_order'' @ dec order \<rparr>
            else markov_try tbl data orders)"

text \<open>After the search, \<^verbatim>\<open>data[0].bigSmall\<close> throws on the empty array.\<close>

definition predictWithMarkov :: "outcome list \<Rightarrow> state \<Rightarrow> js_error + pred" where
  "predictWithMarkov data st =
     (case markov_try (markovChains st) data (rev [1..<MARKOV_ORDER + 1]) of
        Some p \<Rightarrow> Inr p
      | None \<Rightarrow>
          (case data of
             [] \<Rightarrow> Inl TypeError
           | d0 # ds \<Rightarrow>
               Inr \<lparr> prediction = (if bigSmall d0 = BIG then SMALL else BIG), confidence = 0.51,
                     source = ''markov_fallback'' \<rparr>))"

text \<open>The entries of \<^verbatim>\<open>predictions\<close> are triples \<open>(prediction, confidence, weight)\<close>.\<close>

definition predictWithFrequency :: "outcome list \<Rightarrow> pred" where
  "predictWithFrequency data =
     (let windows = [10, 20, 30];
          predictions =
            concat (map (\<lambda>window.
                      if length data < window then []
                      else
                        let recent = take window data;
                            bigCount = length (filter (\<lambda>d. bigSmall d = BIG) recent);
                            ratio = real bigCount / real window
                        in [(if real bigCount \<ge> real window / 2 then BIG else SMALL,
                             \<bar>ratio - 0.5\<bar> * 2, 1 / real window)])
                    windows)
      in if length predictions = 0 then
           \<lparr> prediction = BIG, confidence = 0.50, source = ''frequency_insufficient'' \<rparr>
         else
           let bigScore = foldl (\<lambda>sum (p, c, w). sum + c * w) 0
                            (filter (\<lambda>(p, c, w). p = BIG) predictions);
               smallScore = foldl (\<lambda>sum (p, c, w). sum + c * w) 0
                              (filter (\<lambda>(p, c, w). p = SMALL) predictions);
               totalScore = bigScore + smallScore;
               finalConf = (if totalScore > 0 then max bigScore smallScore / totalScore else 0.5)
           in \<lparr> prediction = (if bigScore > smallScore then BIG else SMALL),
                confidence = min (finalConf + 0.05) 0.75, source = ''frequency'' \<rparr>)"

text \<open>
  \<^verbatim>\<open>predictWithTrend\<close>. (The comparisons are on exact reals. In doubles a deviation of
  exactly three tenths, as between 8/10 and 15/30, is computed as 0.30000000000000004 and
  takes the first branch, where the model takes the second.)
\<close>

definition predictWithTrend :: "outcome list \<Rightarrow> state \<Rightarrow> pred" where
  "predictWithTrend data st =
     (let ta = trendAnalyzer st;
          shortBig = length (filter (\<lambda>b. b = Some 1) (shortTerm ta));
          mediumBig = length (filter (\<lambda>b. b = Some 1) (mediumTerm ta));
          longBig = length (filter (\<lambda>b. b = Some 1) (longTerm ta));
          orOne = (\<lambda>n::nat. if n = 0 then 1 else n);
          shortRatio = real shortBig / real (orOne (length (shortTerm ta)));
          mediumRatio = real mediumBig / real (orOne (length (mediumTerm ta)));
          longRatio = real longBig / real (orOne (length (longTerm ta)));
          deviation = \<bar>shortRatio - mediumRatio\<bar>;
          pc = (if deviation > 0.3 then
                  (if shortRatio > mediumRatio then SMALL else BIG, min (deviation + 0.20) 0.75)
                else
                  let avgRatio = shortRatio * 0.5 + mediumRatio * 0.3 + longRatio * 0.2
                  in (if avgRatio \<ge> 0.5 then BIG else SMALL, \<bar>avgRatio - 0.5\<bar> * 2 + 0.05))
      in \<lparr> prediction = fst pc, confidence = max 0.52 (min (snd pc) 0.78), source = ''trend'' \<rparr>)"

text \<open>
  \<^verbatim>\<open>predictWithQuantum\<close>. (On the empty array \<^verbatim>\<open>pBig\<close> is \<^verbatim>\<open>NaN\<close> in JavaScript, which the
  model does not represent; \<^verbatim>\<open>generateEnsemblePrediction\<close> does not get there, because
  \<^verbatim>\<open>predictWithMarkov\<close> has thrown before.)
\<close>

definition predictWithQuantum :: "outcome list \<Rightarrow> state \<Rightarrow> pred" where
  "predictWithQuantum data st =
     (let bits = map binary data;
          pBig = real (length (filter (\<lambda>b. b = 1) bits)) / real (length bits);
          pSmall = 1 - pBig;
          alpha = sqrt pBig;
          beta = sqrt pSmall;
          decoherence = 1 - entropy (marketState st);
          observedP = (alpha * alpha) * decoherence + 0.5 * (1 - decoherence);
          conf = \<bar>observedP - 0.5\<bar> * 2 + 0.05
      in \<lparr> prediction = (if observedP \<ge> 0.5 then BIG else SMALL),
           confidence = min conf 0.80, source = ''quantum'' \<rparr>)"

section \<open>Recovery mode and ensemble\<close>

datatype recovery_mode = MARTINGALE_SAFE | CAUTION | ANTI_TREND | NORMAL

datatype tier_label = ULTRA_HIGH | HIGH | MEDIUM | LOW | VERY_LOW

definition getRecoveryMode :: "state \<Rightarrow> recovery_mode" where
  "getRecoveryMode st =
     (if consecutiveLosses st \<ge> 3 \<and> volatility (marketState st) < 0.5 then MARTINGALE_SAFE
      else if consecutiveLosses st \<ge> 2 \<and> \<not> truthy (isExploitable (marketState st)) then CAUTION
      else if consecutiveLosses st \<ge> 2 \<and> includes_str (recentTrend (marketState st)) ''STRONG''
        then ANTI_TREND
      else NORMAL)"

definition applyRecoveryMode :: "label \<Rightarrow> recovery_mode \<Rightarrow> label" where
  "applyRecoveryMode basePrediction mode =
     (if mode = ANTI_TREND then (if basePrediction = BIG then SMALL else BIG)
      else basePrediction)"

definition mode_name :: "recovery_mode \<Rightarrow> string" where
  "mode_name m = (case m of MARTINGALE_SAFE \<Rightarrow> ''MARTINGALE_SAFE'' | CAUTION \<Rightarrow> ''CAUTION''
                  | ANTI_TREND \<Rightarrow> ''ANTI_TREND'' | NORMAL \<Rightarrow> ''NORMAL'')"

text \<open>
  The decision \<^verbatim>\<open>generateEnsemblePrediction\<close> returns. The recommendation texts are kept
  without the pictograph that starts each of them in the source. The snapshot
  \<^verbatim>\<open>{ ...modelWeights }\<close> is \<open>weights\<close> on the six model keys and \<open>weights_extra\<close> on the
  other own properties of the object.
\<close>

record decision =
  prediction :: label
  confidence :: int
  tier :: tier_label
  recommendation :: string
  agreement :: int
  marketCondition :: string
  modelOutputs :: "model \<Rightarrow> pred"
  weights :: "model \<Rightarrow> real"
  weights_extra :: "(string \<times> real option) list"
  reasoning :: string

text \<open>
  The scoring pass over \<^verbatim>\<open>Object.entries(predictions)\<close>: \<open>(bigScore, smallScore)\<close>. A weight
  or a confidence of 0 is falsy and replaced by its default.
\<close>

definition scores :: "(model \<Rightarrow> pred) \<Rightarrow> (model \<Rightarrow> real) \<Rightarrow> real \<times> real" where
  "scores predictions w =
     fold (\<lambda>m (bigScore, smallScore).
             let p = predictions m;
                 weight = (if w m = 0 then 0.15 else w m);
                 score = (if pred.confidence p = 0 then 0.5 else pred.confidence p) * weight
             in if pred.prediction p = BIG then (bigScore + score, smallScore)
                else (bigScore, smallScore + score))
       models (0, 0)"

definition rawPrediction_of :: "real \<times> real \<Rightarrow> label" where
  "rawPrediction_of s = (if fst s > snd s then BIG else SMALL)"

definition rawConfidence_of :: "real \<times> real \<Rightarrow> real" where
  "rawConfidence_of s =
     (let totalScore = fst s + snd s
      in if totalScore > 0 then max (fst s) (snd s) / totalScore else 0.5)"

definition agreement_of :: "(model \<Rightarrow> pred) \<Rightarrow> real" where
  "agreement_of predictions =
     (let votes = map predictions models;
          bigVotes = length (filter (\<lambda>p. pred.prediction p = BIG) votes)
      in if length votes > 0
         then real (max bigVotes (length votes - bigVotes)) / real (length votes)
         else 0.5)"

text \<open>The confidence shaping, from \<^verbatim>\<open>rawConfidence\<close> to the clamped \<^verbatim>\<open>finalConfidence\<close>.\<close>

definition finalConfidence_of :: "real \<Rightarrow> real \<Rightarrow> state \<Rightarrow> real" where
  "finalConfidence_of rawConfidence agr st =
     (let f0 = rawConfidence;
          f1 = (if agr \<ge> 0.8 then f0 + 0.08 else if agr \<ge> 0.6 then f0 + 0.04 else f0);
          f2 = (if \<not> truthy (isExploitable (marketState st)) then f1 * 0.85 else f1);
          f3 = (if volatility (marketState st) > 0.6 then f2 * 0.90 else f2);
          f4 = (if consecutiveWins st \<ge> 5 then f3 + 0.05 else f3);
          f5 = (if consecutiveLosses st \<ge> 1 then f4 - 0.05 else f4)
      in max 0.50 (min 0.92 f5))"

definition tier_of :: "real \<Rightarrow> real \<Rightarrow> tier_label \<times> string" where
  "tier_of finalConfidence agr =
     (let conf = finalConfidence * 100
      in if conf \<ge> 78 \<and> agr \<ge> 0.8 then (ULTRA_HIGH, ''MAX CONFIDENCE'')
         else if conf \<ge> 70 \<and> agr \<ge> 0.7 then (HIGH, ''HIGH CONFIDENCE'')
         else if conf \<ge> 63 \<and> agr \<ge> 0.6 then (MEDIUM, ''MEDIUM CONFIDENCE'')
         else if conf \<ge> 55 then (LOW, ''LOW CONFIDENCE'')
         else (VERY_LOW, ''VERY LOW - PROCEED WITH CAUTION''))"

definition reasons_of :: "real \<Rightarrow> recovery_mode \<Rightarrow> state \<Rightarrow> string list" where
  "reasons_of agr recoveryMode st =
     (let r = (if truthy (isExploitable (marketState st))
               then [''Exploitable randomness detected''] else [])
            @ (if agr \<ge> 0.7 then [''Strong model consensus''] else [])
            @ (if consecutiveWins st \<ge> 5 then [''High-win streak active''] else [])
            @ (if recoveryMode \<noteq> NORMAL then [''Recovery mode: '' @ mode_name recoveryMode] else [])
      in if length r = 0 then [''Default prediction based on ensemble''] else r)"

text \<open>\<^verbatim>\<open>Math.round\<close> rounds to the nearest integer, halves upwards.\<close>

definition Math_round :: "real \<Rightarrow> int" where
  "Math_round x = \<lfloor>x + 1 / 2\<rfloor>"

text \<open>Everything \<^verbatim>\<open>generateEnsemblePrediction\<close> does once the six predictors have returned.\<close>

definition combine :: "(model \<Rightarrow> pred) \<Rightarrow> state \<Rightarrow> decision" where
  "combine predictions st =
     (let s = scores predictions (modelWeights st);
          rawPrediction = rawPrediction_of s;
          rawConfidence = rawConfidence_of s;
          agr = agreement_of predictions;
          finalConfidence = finalConfidence_of rawConfidence agr st;
          recoveryMode = getRecoveryMode st;
          finalPrediction = applyRecoveryMode rawPrediction recoveryMode;
          tr = tier_of finalConfidence agr;
          reasons = reasons_of agr recoveryMode st
      in \<lparr> prediction = finalPrediction,
           confidence = Math_round (finalConfidence * 100),
           tier = fst tr,
           recommendation = snd tr,
           agreement = Math_round (agr * 100),
           marketCondition = recentTrend (marketState st),
           modelOutputs = predictions,
           weights = modelWeights st,
           weights_extra = extraWeights st,
           reasoning = join ''; '' reasons @ ''.'' \<rparr>)"

text \<open>
  \<^verbatim>\<open>generateEnsemblePrediction\<close>: the six predictors in the order of the object literal. Only
  \<^verbatim>\<open>predictWithLSTM\<close> writes the state, and a predictor that throws has written nothing.
\<close>

definition generateEnsemblePrediction ::
  "(nat \<Rightarrow> real) \<Rightarrow> outcome list \<Rightarrow> state \<Rightarrow> js_error + decision \<times> state" where
  "generateEnsemblePrediction rnd data st =
     (let pattern = predictWithPatterns data st in
      case predictWithMarkov data st of
        Inl e \<Rightarrow> Inl e
      | Inr markov \<Rightarrow>
          let frequency = predictWithFrequency data in
          case predictWithLSTM rnd data st of
            Inl e \<Rightarrow> Inl e
          | Inr (neural, st') \<Rightarrow>
              let trend = predictWithTrend data st';
                  quantum = predictWithQuantum data st';
                  predictions = (\<lambda>m. case m of Pattern \<Rightarrow> pattern | Markov \<Rightarrow> markov
                                   | Frequency \<Rightarrow> frequency | Neural \<Rightarrow> neural
                                   | Trend \<Rightarrow> trend | Quantum \<Rightarrow> quantum)
              in Inr (combine predictions st', st'))"

section \<open>Model weight update\<close>

text \<open>
  \<^verbatim>\<open>updateModelWeights\<close>. The guard \<^verbatim>\<open>if (!perf) return\<close> stops the call only when the look-up
  is falsy. For one of the six names \<^verbatim>\<open>perf\<close> is the entry, which is updated. For
  \<^verbatim>\<open>__proto__\<close> it is \<^verbatim>\<open>Object.prototype\<close>: \<^verbatim>\<open>perf.total++\<close>, \<^verbatim>\<open>perf.wins++\<close> and the
  assignment to \<^verbatim>\<open>perf.recentAccuracy\<close> put enumerable properties holding \<^verbatim>\<open>NaN\<close> there.
  For an inherited method the writes go to the function object and are not seen again.
  In all three cases the six weights are blended; \<^verbatim>\<open>totalWeight\<close> adds all own values of
  \<^verbatim>\<open>modelWeights\<close>; and the \<^verbatim>\<open>for ... in\<close> rewrites every own key and then every
  enumerable key of the prototype that is not an own key yet (reading \<^verbatim>\<open>NaN\<close> for it),
  which so becomes an own key. A comparison with \<^verbatim>\<open>NaN\<close> is false.
\<close>

definition updateModelWeights :: "string \<Rightarrow> bool \<Rightarrow> state \<Rightarrow> state" where
  "updateModelWeights modelName wasCorrect st =
     (case lookup_performance modelName of
        Missing \<Rightarrow> st
      | perf \<Rightarrow>
          let mp = (case perf of
                      OwnEntry k \<Rightarrow>
                        (modelPerformance st)
                          (k := (modelPerformance st k)
                             \<lparr> total_preds := total_preds (modelPerformance st k) + 1,
                               wins := (if wasCorrect then wins (modelPerformance st k) + 1
                                        else wins (modelPerformance st k)),
                               recentAccuracy := recentAccuracy (modelPerformance st k) * 0.9
                                                 + (if wasCorrect then 1 else 0) * 0.1 \<rparr>)
                    | other \<Rightarrow> modelPerformance st);
              proto = (case perf of
                         ObjectPrototype \<Rightarrow>
                           prototypeProps st
                           @ filter (\<lambda>k. k \<notin> set (prototypeProps st))
                               ([''total''] @ (if wasCorrect then [''wins''] else [])
                                @ [''recentAccuracy''])
                       | other \<Rightarrow> prototypeProps st);
              acc = (\<lambda>m. if recentAccuracy (mp m) = 0 then 0.5 else recentAccuracy (mp m));
              totalPerformance = foldl (\<lambda>sum m. sum + acc m) 0 models;
              blended = (\<lambda>m. modelWeights st m * 0.7 + (acc m / totalPerformance) * 0.3);
              totalWeight = foldl js_add (Some 0)
                              (map (\<lambda>m. Some (blended m)) models @ map snd (extraWeights st));
              inherited = filter (\<lambda>k. k \<notin> set (map fst (extraWeights st))) proto
          in st\<lparr> modelPerformance := mp,
                 modelWeights :=
                   (\<lambda>m. case totalWeight of
                          None \<Rightarrow> 0.15
                        | Some t \<Rightarrow> if t > 0 then blended m / t else 0.15),
                 extraWeights :=
                   map (\<lambda>(k, v). (k, case totalWeight of
                                        None \<Rightarrow> Some 0.15
                                      | Some t \<Rightarrow> if t > 0 then map_option (\<lambda>x. x / t) v
                                                  else Some 0.15))
                     (extraWeights st)
                   @ map (\<lambda>k. (k, case totalWeight of
                                      None \<Rightarrow> Some 0.15
                                    | Some t \<Rightarrow> if t > 0 then None else Some 0.15))
                       inherited,
                 prototypeProps := proto \<rparr>)"

section \<open>Notions used in the statements\<close>

text \<open>
  The shape every cell built by \<^verbatim>\<open>createLSTMCell\<close> has and \<^verbatim>\<open>forwardLSTM\<close> keeps: each
  of the eight matrices has a row for every hidden unit.
\<close>

definition cell_shaped :: "lstm_cell \<Rightarrow> bool" where
  "cell_shaped c = list_all (rows_present c) [0..<length (hidden c)]"

definition cell_ok :: "state \<Rightarrow> bool" where
  "cell_ok st = (case lstmCell st of None \<Rightarrow> True | Some c \<Rightarrow> cell_shaped c)"

text \<open>Weights and rolling accuracies are not negative.\<close>

definition weights_ok :: "state \<Rightarrow> bool" where
  "weights_ok st =
     (list_all (\<lambda>m. 0 \<le> modelWeights st m) models
      \<and> list_all (\<lambda>m. 0 \<le> recentAccuracy (modelPerformance st m)) models)"

definition weight_sum :: "state \<Rightarrow> real" where
  "weight_sum st = sum_list (map (modelWeights st) models)"

text \<open>
  The weight object holds the six model keys only and nothing has been put on
  \<^verbatim>\<open>Object.prototype\<close>.
\<close>

definition weights_clean :: "state \<Rightarrow> bool" where
  "weights_clean st = (extraWeights st = [] \<and> prototypeProps st = [])"

text \<open>What \<open>map_field\<close> leaves of one element that is not null.\<close>

definition field_of :: "(outcome \<Rightarrow> 'a) \<Rightarrow> element \<Rightarrow> 'a option" where
  "field_of f e = (case e of Rec r \<Rightarrow> Some (f r) | Null \<Rightarrow> None | Hole \<Rightarrow> None)"

text \<open>A sequence of calls of \<^verbatim>\<open>updateModelWeights\<close>, one after the other.\<close>

definition adapt :: "(string \<times> bool) list \<Rightarrow> state \<Rightarrow> state" where
  "adapt calls st = fold (\<lambda>(modelName, wasCorrect) s. updateModelWeights modelName wasCorrect s) calls st"

text \<open>
  The candidate of one window length in \<^verbatim>\<open>predictWithPatterns\<close>: the confidence and the
  label the loop body computes when the buffer is long enough and the recent pattern is in
  the table with a total of at least 3.
\<close>

definition pattern_candidate :: "table \<Rightarrow> nat list \<Rightarrow> nat \<Rightarrow> (real \<times> label) option" where
  "pattern_candidate tbl numbers len =
     (if length numbers < len + 1 then None
      else
        case tbl (join [] (map dec (take len numbers))) of
          None \<Rightarrow> None
        | Some stats \<Rightarrow>
            if total_count stats \<ge> 3 then
              Some (real (Math_max (counts stats)) / real (total_count stats),
                    toBigSmall (indexOf (counts stats) (Math_max (counts stats))))
            else None)"

subsection \<open>Concrete inputs\<close>

definition rec7 :: outcome where
  "rec7 = \<lparr> issueNumber = ''20260101100010007'', number = 7, bigSmall = BIG, binary = 1,
            timestamp = 0 \<rparr>"

definition rec2 :: outcome where
  "rec2 = \<lparr> issueNumber = ''20260101100010008'', number = 2, bigSmall = SMALL, binary = 0,
            timestamp = 0 \<rparr>"

text \<open>A record with the given digit, labelled as \<^verbatim>\<open>fetchData\<close> labels it.\<close>

definition rec_of :: "nat \<Rightarrow> outcome" where
  "rec_of n = \<lparr> issueNumber = ''p'' @ dec n, number = n, bigSmall = toBigSmall (int n),
               binary = toBinary (int n), timestamp = 0 \<rparr>"

definition zero_rnd :: "nat \<Rightarrow> real" where
  "zero_rnd k = 0"

text \<open>
  A pattern table in which the two window lengths 3 and 4 both match the recent digits
  1, 2, 3, 7 with confidence 1, as a training pass over a buffer that holds the run
  1, 2, 3, 7, 2 three times produces them, and a buffer that starts with that run.
\<close>

definition tie_table :: table where
  "tie_table =
     [''123'' \<mapsto> \<lparr> counts = [0, 0, 0, 0, 0, 0, 0, 3, 0, 0], total_count = 3 \<rparr>,
      ''1237'' \<mapsto> \<lparr> counts = [0, 0, 3, 0, 0, 0, 0, 0, 0, 0], total_count = 3 \<rparr>]"

definition tie_data :: "outcome list" where
  "tie_data = map rec_of [1, 2, 3, 7, 2]"

definition tie_state :: state where
  "tie_state = initial_state\<lparr>patternDatabase := tie_table\<rparr>"

text \<open>
  A state with trained tables, and a sparse array: a record, a hole, a record.
\<close>

definition trained_state :: state where
  "trained_state =
     initial_state\<lparr> patternDatabase := tie_table,
                    markovChains :=
                      [''7'' \<mapsto> \<lparr> counts = [0, 0, 9, 0, 0, 0, 0, 0, 0, 0], total_count = 9 \<rparr>] \<rparr>"

definition sparse_data :: "element list" where
  "sparse_data = [Rec rec7, Hole, Rec rec2]"

text \<open>
  A state and a buffer on which the six predictors all vote BIG: one SMALL record followed
  by five BIG records, no trained table, no cell yet, an exploitable market.
\<close>

definition agree_data :: "outcome list" where
  "agree_data = [rec2, rec7, rec7, rec7, rec7, rec7]"

definition agree_state :: state where
  "agree_state =
     initial_state\<lparr> trendAnalyzer := \<lparr> shortTerm = [Some 1], mediumTerm = [Some 1],
                                        longTerm = [Some 1] \<rparr>,
                    marketState := (marketState initial_state)\<lparr> isExploitable := Some True \<rparr> \<rparr>"

text \<open>What the six predictors answer there, and the state the call leaves.\<close>

definition agree_outputs :: "model \<Rightarrow> pred" where
  "agree_outputs m =
     (case m of
        Pattern \<Rightarrow> \<lparr> pred.prediction = BIG, pred.confidence = 0.52, source = ''pattern_fallback'' \<rparr>
      | Markov \<Rightarrow> \<lparr> pred.prediction = BIG, pred.confidence = 0.51, source = ''markov_fallback'' \<rparr>
      | Frequency \<Rightarrow> \<lparr> pred.prediction = BIG, pred.confidence = 0.50, source = ''frequency_insufficient'' \<rparr>
      | Neural \<Rightarrow> \<lparr> pred.prediction = BIG, pred.confidence = 0.50, source = ''lstm_uninitialized'' \<rparr>
      | Trend \<Rightarrow> \<lparr> pred.prediction = BIG, pred.confidence = 0.78, source = ''trend'' \<rparr>
      | Quantum \<Rightarrow> \<lparr> pred.prediction = BIG, pred.confidence = 43 / 60, source = ''quantum'' \<rparr>)"

definition agree_after :: state where
  "agree_after = agree_state\<lparr>lstmCell := Some (createLSTMCell zero_rnd 20 15)\<rparr>"

text \<open>A state in which the recovery mode is \<^verbatim>\<open>ANTI_TREND\<close>.\<close>

definition anti_trend_state :: state where
  "anti_trend_state =
     initial_state\<lparr> consecutiveLosses := 2,
                    marketState := (marketState initial_state)
                      \<lparr> recentTrend := ''STRONG_SMALL'', isExploitable := Some True \<rparr> \<rparr>"


section \<open>Properties of the data buffer\<close>

lemma fold_unshift:
  "fold (\<lambda>item b. if P item then item # b else b) xs acc = rev (filter P xs) @ acc"
  by (induction xs arbitrary: acc) simp_all

lemma updateDataBuffer_buffer:
  "dataBuffer (snd (updateDataBuffer newData st)) =
     take 200 (rev (filter (\<lambda>item. issueNumber item \<notin> set (map issueNumber (dataBuffer st))) newData)
               @ dataBuffer st)"
  by (simp add: updateDataBuffer_def Let_def fold_unshift)

lemma ingest_bounded:
  "length (dataBuffer st) \<le> 200 \<Longrightarrow> length (dataBuffer (ingest batches st)) \<le> 200"
proof (induction batches arbitrary: st)
  case Nil
  then show ?case by (simp add: ingest_def)
next
  case (Cons b bs)
  have "length (dataBuffer (snd (updateDataBuffer b st))) \<le> 200"
    by (simp add: updateDataBuffer_buffer)
  from Cons.IH [OF this] show ?case by (simp add: ingest_def)
qed

text \<open>
  Claim C2. After one ingest, and after any sequence of ingests that starts from the empty
  buffer of a fresh process, the buffer holds at most 200 records. One ingest puts the
  accepted records at the head (the last accepted record first), leaves the records that
  were already there in their order behind them, and keeps the first 200 of the result, so
  what an overflow drops is the tail.
\<close>

theorem C2_buffer_capacity:
  "length (dataBuffer (snd (updateDataBuffer newData st))) \<le> 200
   \<and> dataBuffer (snd (updateDataBuffer newData st)) =
       take 200 (rev (filter (\<lambda>item. issueNumber item \<notin> set (map issueNumber (dataBuffer st))) newData)
                 @ dataBuffer st)
   \<and> fst (updateDataBuffer newData st) = dataBuffer (snd (updateDataBuffer newData st))
   \<and> length (dataBuffer (ingest batches initial_state)) \<le> 200"
proof -
  have "length (dataBuffer (ingest batches initial_state)) \<le> 200"
    by (rule ingest_bounded) (simp add: initial_state_def)
  moreover have "fst (updateDataBuffer newData st) = dataBuffer (snd (updateDataBuffer newData st))"
    by (simp add: updateDataBuffer_def Let_def)
  ultimately show ?thesis
    by (simp add: updateDataBuffer_buffer)
qed

lemma updateDataBuffer_distinct:
  assumes "distinct (map issueNumber (dataBuffer st))" and "distinct (map issueNumber newData)"
  shows "distinct (map issueNumber (dataBuffer (snd (updateDataBuffer newData st))))"
proof -
  let ?P = "\<lambda>item. issueNumber item \<notin> set (map issueNumber (dataBuffer st))"
  have "distinct (map issueNumber (filter ?P newData))"
    using assms(2) by (rule distinct_map_filter)
  moreover have "set (map issueNumber (filter ?P newData)) \<inter> set (map issueNumber (dataBuffer st)) = {}"
    by auto
  ultimately have "distinct (map issueNumber (rev (filter ?P newData) @ dataBuffer st))"
    using assms(1) by (simp add: rev_map [symmetric] del: set_map)
  then have "distinct (take 200 (map issueNumber (rev (filter ?P newData) @ dataBuffer st)))"
    by (rule distinct_take)
  then show ?thesis
    by (simp only: updateDataBuffer_buffer take_map)
qed

lemma updateDataBuffer_known_ids:
  assumes "length (dataBuffer st) \<le> 200"
    and "set (map issueNumber newData) \<subseteq> set (map issueNumber (dataBuffer st))"
  shows "updateDataBuffer newData st = (dataBuffer st, st)"
proof -
  have "filter (\<lambda>item. issueNumber item \<notin> set (map issueNumber (dataBuffer st))) newData = []"
    using assms(2) by (auto simp: filter_empty_conv)
  then show ?thesis
    using assms(1) by (simp add: updateDataBuffer_def Let_def fold_unshift)
qed

text \<open>
  Claim C10. The set of known period ids is taken before the loop and never extended. Two
  records of one batch that share an id the buffer does not hold are therefore both
  inserted, and the buffer then holds that id twice. Ids stay pairwise distinct when they
  are distinct in the buffer and in the batch. A batch whose ids are all in the buffer
  (the buffer being within its capacity) changes nothing.
\<close>

theorem C10_known_ids_taken_once:
  "(issueNumber a = issueNumber b \<and> issueNumber a \<notin> set (map issueNumber (dataBuffer st)) \<longrightarrow>
      dataBuffer (snd (updateDataBuffer [a, b] st)) = take 200 (b # a # dataBuffer st)
      \<and> \<not> distinct (map issueNumber (dataBuffer (snd (updateDataBuffer [a, b] st)))))
   \<and> (distinct (map issueNumber (dataBuffer st)) \<and> distinct (map issueNumber newData) \<longrightarrow>
      distinct (map issueNumber (dataBuffer (snd (updateDataBuffer newData st)))))
   \<and> (length (dataBuffer st) \<le> 200
        \<and> set (map issueNumber newData) \<subseteq> set (map issueNumber (dataBuffer st)) \<longrightarrow>
      updateDataBuffer newData st = (dataBuffer st, st))"
proof (intro conjI impI)
  assume h: "issueNumber a = issueNumber b \<and> issueNumber a \<notin> set (map issueNumber (dataBuffer st))"
  then have ha: "issueNumber a \<notin> set (map issueNumber (dataBuffer st))"
    and hb: "issueNumber b \<notin> set (map issueNumber (dataBuffer st))"
    by auto
  show both: "dataBuffer (snd (updateDataBuffer [a, b] st)) = take 200 (b # a # dataBuffer st)"
    unfolding updateDataBuffer_buffer using ha hb by simp
  have "take 200 (b # a # dataBuffer st) = b # a # take 198 (dataBuffer st)"
    by (simp add: take_Cons')
  with h show "\<not> distinct (map issueNumber (dataBuffer (snd (updateDataBuffer [a, b] st))))"
    by (simp add: both)
next
  assume "distinct (map issueNumber (dataBuffer st)) \<and> distinct (map issueNumber newData)"
  then show "distinct (map issueNumber (dataBuffer (snd (updateDataBuffer newData st))))"
    by (simp add: updateDataBuffer_distinct)
next
  assume "length (dataBuffer st) \<le> 200
    \<and> set (map issueNumber newData) \<subseteq> set (map issueNumber (dataBuffer st))"
  then show "updateDataBuffer newData st = (dataBuffer st, st)"
    by (simp add: updateDataBuffer_known_ids)
qed

theorem C10_known_ids_taken_once_witness:
  "dataBuffer (snd (updateDataBuffer [rec7, rec7] initial_state)) = [rec7, rec7]
   \<and> \<not> distinct (map issueNumber (dataBuffer (snd (updateDataBuffer [rec7, rec7] initial_state))))
   \<and> distinct (map issueNumber (dataBuffer (snd (updateDataBuffer [rec7] initial_state))))
   \<and> updateDataBuffer [rec7] (initial_state\<lparr>dataBuffer := [rec7]\<rparr>)
       = ([rec7], initial_state\<lparr>dataBuffer := [rec7]\<rparr>)"
  using C10_known_ids_taken_once [of rec7 rec7 initial_state "[rec7]"]
    C10_known_ids_taken_once [of rec7 rec7 "initial_state\<lparr>dataBuffer := [rec7]\<rparr>" "[rec7]"]
  by (simp add: initial_state_def)

section \<open>Market analysis on a short buffer\<close>

text \<open>
  Claim C6. On an array of fewer than 30 elements \<^verbatim>\<open>analyzeMarketState\<close> returns the market
  state it found and leaves the whole state, and so every field of the market state, as it
  was.
\<close>

theorem C6_analyze_short_buffer:
  "length data < 30 \<Longrightarrow> analyzeMarketState now data st = (Inr (marketState st), st)"
  by (simp add: analyzeMarketState_def)

theorem C6_analyze_short_buffer_witness:
  "length (map Rec [rec7, rec2]) < 30
   \<and> analyzeMarketState 1767225600000 (map Rec [rec7, rec2]) initial_state
       = (Inr (marketState initial_state), initial_state)"
  using C6_analyze_short_buffer [of "map Rec [rec7, rec2]" 1767225600000 initial_state]
  by simp

section \<open>Recurrent cell with a short buffer\<close>

text \<open>
  Claim C8, as stated, fails on the first invocation: with no cell yet, the call answers
  with the source tag \<^verbatim>\<open>lstm_uninitialized\<close>, whatever the length of the buffer.
\<close>

theorem C8_first_call_counterexample:
  "length ([] :: outcome list) < 20
   \<and> lstmCell initial_state = None
   \<and> map_sum id fst (predictWithLSTM zero_rnd [] initial_state)
       = Inr \<lparr> pred.prediction = BIG, pred.confidence = 0.50, source = ''lstm_uninitialized'' \<rparr>
   \<and> map_sum id fst (predictWithLSTM zero_rnd [] initial_state)
       \<noteq> Inr \<lparr> pred.prediction = BIG, pred.confidence = 0.50, source = ''lstm_insufficient'' \<rparr>"
  by (simp add: predictWithLSTM_def initial_state_def)

text \<open>
  Claim C8, amended. Once the cell exists, a call with fewer than 20 records returns exactly
  BIG, 0.50, \<^verbatim>\<open>lstm_insufficient\<close> and changes nothing. The first invocation creates the cell
  and returns BIG, 0.50, \<^verbatim>\<open>lstm_uninitialized\<close>, whatever the buffer holds.
\<close>

theorem C8_lstm_fallbacks:
  "(lstmCell st = Some c \<and> length data < 20 \<longrightarrow>
      predictWithLSTM rnd data st
        = Inr (\<lparr> pred.prediction = BIG, pred.confidence = 0.50, source = ''lstm_insufficient'' \<rparr>, st))
   \<and> (lstmCell st = None \<longrightarrow>
      predictWithLSTM rnd data st
        = Inr (\<lparr> pred.prediction = BIG, pred.confidence = 0.50, source = ''lstm_uninitialized'' \<rparr>,
               st\<lparr>lstmCell := Some (createLSTMCell rnd 20 15)\<rparr>))"
  by (simp add: predictWithLSTM_def)

theorem C8_lstm_fallbacks_witness:
  "predictWithLSTM zero_rnd [rec7]
      (initial_state\<lparr>lstmCell := Some (createLSTMCell zero_rnd 20 15)\<rparr>)
     = Inr (\<lparr> pred.prediction = BIG, pred.confidence = 0.50, source = ''lstm_insufficient'' \<rparr>,
            initial_state\<lparr>lstmCell := Some (createLSTMCell zero_rnd 20 15)\<rparr>)
   \<and> predictWithLSTM zero_rnd [rec7] initial_state
     = Inr (\<lparr> pred.prediction = BIG, pred.confidence = 0.50, source = ''lstm_uninitialized'' \<rparr>,
            initial_state\<lparr>lstmCell := Some (createLSTMCell zero_rnd 20 15)\<rparr>)"
  using C8_lstm_fallbacks [of "initial_state\<lparr>lstmCell := Some (createLSTMCell zero_rnd 20 15)\<rparr>"
      "createLSTMCell zero_rnd 20 15" "[rec7]" zero_rnd]
    C8_lstm_fallbacks [of initial_state "createLSTMCell zero_rnd 20 15" "[rec7]" zero_rnd]
  by (simp add: initial_state_def)

section \<open>Recovery mode\<close>

text \<open>
  Claim C9. When \<^verbatim>\<open>getRecoveryMode\<close> answers \<^verbatim>\<open>ANTI_TREND\<close>, the market state is exploitable,
  there are at least two consecutive losses and the trend label contains \<^verbatim>\<open>STRONG\<close>: the
  \<^verbatim>\<open>CAUTION\<close> test comes first and takes every state with two losses that is not exploitable.
\<close>

theorem C9_anti_trend_exploitable:
  "getRecoveryMode st = ANTI_TREND \<Longrightarrow>
     isExploitable (marketState st) = Some True
     \<and> consecutiveLosses st \<ge> 2
     \<and> includes_str (recentTrend (marketState st)) ''STRONG''
     \<and> \<not> (consecutiveLosses st \<ge> 3 \<and> volatility (marketState st) < 0.5)"
  by (simp add: getRecoveryMode_def truthy_def split: if_splits)

theorem C9_anti_trend_exploitable_witness:
  "getRecoveryMode anti_trend_state = ANTI_TREND
   \<and> isExploitable (marketState anti_trend_state) = Some True
   \<and> consecutiveLosses anti_trend_state \<ge> 2
   \<and> includes_str (recentTrend (marketState anti_trend_state)) ''STRONG''"
proof -
  have m: "getRecoveryMode anti_trend_state = ANTI_TREND"
    by (simp add: getRecoveryMode_def anti_trend_state_def initial_state_def truthy_def)
  from C9_anti_trend_exploitable [OF m] m show ?thesis by simp
qed

section \<open>Pattern model: which window length wins\<close>

lemma pattern_step_candidate:
  "pattern_step tbl numbers len best =
     (case pattern_candidate tbl numbers len of
        None \<Rightarrow> best
      | Some (c, p) \<Rightarrow> if c > fst best then (c, Some p) else best)"
  by (simp add: pattern_step_def pattern_candidate_def Let_def split: option.splits)

lemma fold_pattern_below:
  assumes "\<forall>len\<in>set ls. \<forall>c p. pattern_candidate tbl numbers len = Some (c, p) \<longrightarrow> c < cmax"
    and "fst best < cmax"
  shows "fst (fold (pattern_step tbl numbers) ls best) < cmax"
  using assms
proof (induction ls arbitrary: best)
  case Nil
  then show ?case by simp
next
  case (Cons len ls)
  have "fst (pattern_step tbl numbers len best) < cmax"
    using Cons.prems by (auto simp: pattern_step_candidate split: option.splits)
  moreover have "\<forall>l\<in>set ls. \<forall>c p. pattern_candidate tbl numbers l = Some (c, p) \<longrightarrow> c < cmax"
    using Cons.prems(1) by simp
  ultimately show ?case using Cons.IH by simp
qed

lemma fold_pattern_keep:
  assumes "\<forall>len\<in>set ls. \<forall>c p. pattern_candidate tbl numbers len = Some (c, p) \<longrightarrow> c \<le> fst best"
  shows "fold (pattern_step tbl numbers) ls best = best"
  using assms
proof (induction ls)
  case Nil
  then show ?case by simp
next
  case (Cons len ls)
  have "pattern_step tbl numbers len best = best"
    using Cons.prems by (auto simp: pattern_step_candidate split: option.splits)
  then show ?case using Cons by simp
qed

lemma SEQUENCE_LENGTHS_sorted: "sorted SEQUENCE_LENGTHS \<and> distinct SEQUENCE_LENGTHS"
  by (simp add: SEQUENCE_LENGTHS_def)

text \<open>
  Claim C7, as stated, fails: the update is on a strictly greater confidence, so of two
  window lengths with the same confidence the one tried first, the smaller, stays. For the
  recent digits 1, 2, 3, 7 the lengths 3 and 4 both qualify with confidence 1; length 3
  votes BIG, length 4 votes SMALL, and the model answers BIG.
\<close>

theorem C7_tie_counterexample:
  "pattern_candidate (patternDatabase tie_state) (map number tie_data) 3 = Some (1, BIG)
   \<and> pattern_candidate (patternDatabase tie_state) (map number tie_data) 4 = Some (1, SMALL)
   \<and> predictWithPatterns tie_data tie_state
       = \<lparr> pred.prediction = BIG, pred.confidence = 1, source = ''pattern'' \<rparr>
   \<and> predictWithPatterns tie_data tie_state
       \<noteq> \<lparr> pred.prediction = SMALL, pred.confidence = 1, source = ''pattern'' \<rparr>"
  by (simp add: predictWithPatterns_def pattern_step_def pattern_candidate_def tie_state_def
      tie_table_def tie_data_def rec_of_def SEQUENCE_LENGTHS_def Math_max_def toBigSmall_def
      Let_def)

text \<open>
  Claim C7, amended. Among the window lengths whose candidate qualifies (buffer longer than
  the window, recent pattern in the table with a total of at least 3), the model answers
  with the candidate of highest confidence, provided that confidence is positive, and of
  several lengths that reach it the smallest one decides.
\<close>

theorem C7_pattern_first_maximum:
  assumes cand: "pattern_candidate (patternDatabase st) (map number data) L = Some (c, p)"
    and L: "L \<in> set SEQUENCE_LENGTHS"
    and pos: "0 < c"
    and highest: "\<forall>L'\<in>set SEQUENCE_LENGTHS. \<forall>c' p'.
        pattern_candidate (patternDatabase st) (map number data) L' = Some (c', p') \<longrightarrow> c' \<le> c"
    and smallest: "\<forall>L'\<in>set SEQUENCE_LENGTHS. \<forall>p'.
        pattern_candidate (patternDatabase st) (map number data) L' = Some (c, p') \<longrightarrow> L \<le> L'"
  shows "predictWithPatterns data st
           = \<lparr> pred.prediction = p, pred.confidence = c, source = ''pattern'' \<rparr>"
proof -
  let ?tbl = "patternDatabase st" and ?ns = "map number data"
  from L obtain pre post where split: "SEQUENCE_LENGTHS = pre @ L # post"
    by (auto dest: split_list)
  have srt: "sorted (pre @ L # post)" and dst: "distinct (pre @ L # post)"
    using SEQUENCE_LENGTHS_sorted unfolding split by simp_all
  have pre_lt: "\<forall>l\<in>set pre. l < L"
    using srt dst by (auto simp: sorted_append le_less)
  have pre_below: "\<forall>l\<in>set pre. \<forall>c' p'. pattern_candidate ?tbl ?ns l = Some (c', p') \<longrightarrow> c' < c"
  proof (intro ballI allI impI)
    fix l c' p'
    assume l: "l \<in> set pre" and c': "pattern_candidate ?tbl ?ns l = Some (c', p')"
    have mem: "l \<in> set SEQUENCE_LENGTHS" unfolding split using l by simp
    have "c' \<le> c" using highest mem c' by blast
    moreover have "c' \<noteq> c"
    proof
      assume "c' = c"
      then have "L \<le> l" using smallest mem c' by blast
      then show False using pre_lt l by auto
    qed
    ultimately show "c' < c" by simp
  qed
  have post_below: "\<forall>l\<in>set post. \<forall>c' p'.
      pattern_candidate ?tbl ?ns l = Some (c', p') \<longrightarrow> c' \<le> fst (c, Some p)"
  proof (intro ballI allI impI)
    fix l c' p'
    assume l: "l \<in> set post" and c': "pattern_candidate ?tbl ?ns l = Some (c', p')"
    have "l \<in> set SEQUENCE_LENGTHS" unfolding split using l by simp
    then have "c' \<le> c" using highest c' by blast
    then show "c' \<le> fst (c, Some p)" by simp
  qed
  define b1 where "b1 = fold (pattern_step ?tbl ?ns) pre (0, None)"
  have "fst b1 < c"
    unfolding b1_def using pre_below pos by (intro fold_pattern_below) simp_all
  then have at_L: "pattern_step ?tbl ?ns L b1 = (c, Some p)"
    by (simp add: pattern_step_candidate cand)
  have "fold (pattern_step ?tbl ?ns) SEQUENCE_LENGTHS (0, None)
          = fold (pattern_step ?tbl ?ns) post (pattern_step ?tbl ?ns L b1)"
    by (simp add: split b1_def)
  also have "\<dots> = (c, Some p)"
    unfolding at_L using post_below by (rule fold_pattern_keep)
  finally show ?thesis
    by (simp add: predictWithPatterns_def Let_def)
qed

theorem C7_pattern_first_maximum_witness:
  "pattern_candidate (patternDatabase tie_state) (map number tie_data) 3 = Some (1, BIG)
   \<and> predictWithPatterns tie_data tie_state
       = \<lparr> pred.prediction = BIG, pred.confidence = 1, source = ''pattern'' \<rparr>"
proof -
  have c3: "pattern_candidate (patternDatabase tie_state) (map number tie_data) 3 = Some (1, BIG)"
    by (simp add: pattern_candidate_def tie_state_def tie_table_def tie_data_def rec_of_def
        Math_max_def toBigSmall_def)
  have hi: "\<forall>L'\<in>set SEQUENCE_LENGTHS. \<forall>c' p'.
      pattern_candidate (patternDatabase tie_state) (map number tie_data) L' = Some (c', p')
        \<longrightarrow> c' \<le> 1"
    by (simp add: pattern_candidate_def tie_state_def tie_table_def tie_data_def rec_of_def
        Math_max_def toBigSmall_def SEQUENCE_LENGTHS_def)
  have sm: "\<forall>L'\<in>set SEQUENCE_LENGTHS. \<forall>p'.
      pattern_candidate (patternDatabase tie_state) (map number tie_data) L' = Some (1, p')
        \<longrightarrow> 3 \<le> L'"
    by (simp add: SEQUENCE_LENGTHS_def)
  have "(3::nat) \<in> set SEQUENCE_LENGTHS" by (simp add: SEQUENCE_LENGTHS_def)
  from C7_pattern_first_maximum [OF c3 this _ hi sm] c3 show ?thesis by simp
qed

section \<open>Weight adapter\<close>

lemma foldl_plus: "foldl (\<lambda>s m. s + f m) a xs = a + sum_list (map f xs)"
  for f :: "'a \<Rightarrow> real"
  by (induction xs arbitrary: a) simp_all

lemma foldl_js_add_numbers:
  "foldl js_add (Some a) (map (\<lambda>m. Some (f m)) xs) = Some (a + sum_list (map f xs))"
  by (induction xs arbitrary: a) (simp_all add: js_add_def)

lemma foldl_js_add_NaN: "foldl js_add None xs = None"
  by (induction xs) (simp_all add: js_add_def)

lemma foldl_js_add_has_NaN: "None \<in> set xs \<Longrightarrow> foldl js_add a xs = None"
proof (induction xs arbitrary: a)
  case Nil
  then show ?case by simp
next
  case (Cons x xs)
  show ?case
  proof (cases x)
    case None
    then have "js_add a x = None" by (simp add: js_add_def split: option.splits)
    then show ?thesis by (simp add: foldl_js_add_NaN)
  next
    case (Some y)
    with Cons.prems have "None \<in> set xs" by simp
    then show ?thesis by (simp add: Cons.IH)
  qed
qed

lemma sum_list_divide: "sum_list (map (\<lambda>m. f m / t) xs) = sum_list (map f xs) / t"
  for f :: "'a \<Rightarrow> real"
  by (induction xs) (simp_all add: add_divide_distrib)

lemma sum_list_positive:
  "xs \<noteq> [] \<Longrightarrow> (\<And>x. x \<in> set xs \<Longrightarrow> 0 < f x) \<Longrightarrow> 0 < sum_list (map f xs)"
  for f :: "'a \<Rightarrow> real"
proof (induction xs)
  case Nil
  then show ?case by simp
next
  case (Cons x xs)
  have "0 \<le> sum_list (map f xs)"
    using Cons.prems(2) by (intro sum_list_nonneg) (auto simp: less_imp_le)
  moreover have "0 < f x" using Cons.prems(2) by simp
  ultimately show ?case by simp
qed

lemma list_all_models: "list_all P models \<longleftrightarrow> (\<forall>m. P m)"
proof
  assume a: "list_all P models"
  show "\<forall>m. P m"
  proof
    fix m
    from a show "P m" by (cases m) (simp_all add: models_def)
  qed
next
  assume "\<forall>m. P m"
  then show "list_all P models" by (simp add: models_def)
qed

lemma models_nonempty: "models \<noteq> []"
  by (simp add: models_def)

lemma lookup_known:
  "model_of_name modelName = Some k \<Longrightarrow> lookup_performance modelName = OwnEntry k"
  by (simp add: lookup_performance_def)

text \<open>
  What one call with one of the six names leaves in a state whose weight object holds the
  six model keys only: each blended weight divided by their total when that total is
  positive, 0.15 for each otherwise.
\<close>

lemma updateModelWeights_known:
  fixes st :: state and wasCorrect :: bool and modelName :: string
  assumes known: "model_of_name modelName = Some k"
    and clean: "extraWeights st = []" "prototypeProps st = []"
  defines "perf' \<equiv> (modelPerformance st k)
            \<lparr> total_preds := total_preds (modelPerformance st k) + 1,
              wins := (if wasCorrect then wins (modelPerformance st k) + 1
                       else wins (modelPerformance st k)),
              recentAccuracy := recentAccuracy (modelPerformance st k) * 0.9
                                + (if wasCorrect then 1 else 0) * 0.1 \<rparr>"
  defines "mp \<equiv> (modelPerformance st)(k := perf')"
  defines "acc \<equiv> \<lambda>m. if recentAccuracy (mp m) = 0 then 0.5 else recentAccuracy (mp m)"
  defines "blended \<equiv> \<lambda>m. modelWeights st m * 0.7
                           + (acc m / sum_list (map acc models)) * 0.3"
  shows "updateModelWeights modelName wasCorrect st =
           st\<lparr> modelPerformance := mp,
               modelWeights := (\<lambda>m. if sum_list (map blended models) > 0
                 then blended m / sum_list (map blended models) else 0.15),
               extraWeights := [],
               prototypeProps := [] \<rparr>"
  unfolding updateModelWeights_def lookup_known [OF known] perf_lookup.case Let_def clean
    list.map filter.simps append_Nil2 append_Nil foldl_js_add_numbers option.case foldl_plus add_0
    blended_def acc_def mp_def perf'_def
  by (rule refl)

text \<open>
  From weights and accuracies that are not negative, in such a state, the total is positive
  and the new weights sum to 1; the state after the call is of the same kind.
\<close>

lemma weights_ok_after:
  assumes known: "model_of_name modelName = Some k"
    and ok: "weights_ok st" and clean: "weights_clean st"
  shows "weight_sum (updateModelWeights modelName wasCorrect st) = 1
         \<and> weights_ok (updateModelWeights modelName wasCorrect st)
         \<and> weights_clean (updateModelWeights modelName wasCorrect st)"
proof -
  define perf' where "perf' = (modelPerformance st k)
            \<lparr> total_preds := total_preds (modelPerformance st k) + 1,
              wins := (if wasCorrect then wins (modelPerformance st k) + 1
                       else wins (modelPerformance st k)),
              recentAccuracy := recentAccuracy (modelPerformance st k) * 0.9
                                + (if wasCorrect then 1 else 0) * 0.1 \<rparr>"
  define mp where "mp = (modelPerformance st)(k := perf')"
  define acc where "acc = (\<lambda>m. if recentAccuracy (mp m) = 0 then 0.5 else recentAccuracy (mp m))"
  define blended where "blended = (\<lambda>m. modelWeights st m * 0.7
                           + (acc m / sum_list (map acc models)) * 0.3)"
  define t where "t = sum_list (map blended models)"
  have c: "extraWeights st = []" "prototypeProps st = []"
    using clean by (simp_all add: weights_clean_def)
  have eq: "updateModelWeights modelName wasCorrect st =
           st\<lparr> modelPerformance := mp,
               modelWeights := (\<lambda>m. if t > 0 then blended m / t else 0.15),
               extraWeights := [],
               prototypeProps := [] \<rparr>"
    unfolding t_def blended_def acc_def mp_def perf'_def
    by (rule updateModelWeights_known [OF known c])
  have w0: "0 \<le> modelWeights st m" and a0: "0 \<le> recentAccuracy (modelPerformance st m)" for m
    using ok by (simp_all add: weights_ok_def list_all_models)
  have "0 \<le> recentAccuracy perf'"
    using a0 [of k] by (simp add: perf'_def)
  then have a': "0 \<le> recentAccuracy (mp m)" for m
    using a0 [of m] by (simp add: mp_def)
  have acc_pos: "0 < acc m" for m
    using a' [of m] by (simp add: acc_def)
  have tp: "0 < sum_list (map acc models)"
    by (rule sum_list_positive [OF models_nonempty]) (rule acc_pos)
  have bl: "0 < blended m" for m
  proof -
    have "0 < acc m / sum_list (map acc models)" using acc_pos tp by simp
    then show ?thesis using w0 [of m] by (simp add: blended_def add_nonneg_pos)
  qed
  have t: "0 < t"
    unfolding t_def by (rule sum_list_positive [OF models_nonempty]) (rule bl)
  then have "weight_sum (updateModelWeights modelName wasCorrect st) = t / t"
    by (simp add: weight_sum_def eq sum_list_divide t_def)
  then have s: "weight_sum (updateModelWeights modelName wasCorrect st) = 1" using t by simp
  have "0 \<le> blended m / t" for m
    using t bl [of m] by (simp add: less_imp_le)
  then have "weights_ok (updateModelWeights modelName wasCorrect st)"
    using a' t by (simp add: weights_ok_def list_all_models eq)
  moreover have "weights_clean (updateModelWeights modelName wasCorrect st)"
    by (simp add: weights_clean_def eq)
  ultimately show ?thesis using s by simp
qed

lemma weights_initial:
  "weights_ok initial_state \<and> weights_clean initial_state \<and> weight_sum initial_state = 1"
  by (simp add: weights_ok_def weights_clean_def weight_sum_def initial_state_def models_def
      INITIAL_WEIGHTS_def)

text \<open>So the weights sum to 1 after every sequence of calls that only names the six models.\<close>

lemma adapt_known_names:
  assumes "list_all (\<lambda>(modelName, wasCorrect). model_of_name modelName \<noteq> None) calls"
    and "weights_ok st \<and> weights_clean st \<and> weight_sum st = 1"
  shows "weights_ok (adapt calls st) \<and> weights_clean (adapt calls st)
         \<and> weight_sum (adapt calls st) = 1"
  using assms
proof (induction calls arbitrary: st)
  case Nil
  then show ?case by (simp add: adapt_def)
next
  case (Cons call calls)
  obtain modelName wasCorrect where call: "call = (modelName, wasCorrect)"
    by (cases call)
  with Cons.prems(1) obtain k where k: "model_of_name modelName = Some k" by auto
  have step: "weights_ok (updateModelWeights modelName wasCorrect st)
        \<and> weights_clean (updateModelWeights modelName wasCorrect st)
        \<and> weight_sum (updateModelWeights modelName wasCorrect st) = 1"
    using weights_ok_after [OF k, of st wasCorrect] Cons.prems(2) by simp
  have rest: "list_all (\<lambda>(modelName, wasCorrect). model_of_name modelName \<noteq> None) calls"
    using Cons.prems(1) by simp
  from Cons.IH [OF rest step] show ?case by (simp add: adapt_def call)
qed

text \<open>
  Once the weight object holds a \<^verbatim>\<open>NaN\<close>, the total is \<^verbatim>\<open>NaN\<close>, the test
  \<^verbatim>\<open>totalWeight > 0\<close> fails and every call that passes the guard sets the six weights to 0.15.
\<close>

lemma updateModelWeights_NaN:
  assumes "lookup_performance modelName \<noteq> Missing"
    and "None \<in> set (map snd (extraWeights st))"
  shows "modelWeights (updateModelWeights modelName wasCorrect st) m = 0.15"
proof -
  have "foldl js_add (Some 0) (map (\<lambda>m. Some (f m)) models @ map snd (extraWeights st)) = None"
    for f :: "model \<Rightarrow> real"
    using assms(2) by (intro foldl_js_add_has_NaN) simp
  then show ?thesis
    using assms(1) unfolding updateModelWeights_def Let_def
    by (cases "lookup_performance modelName") simp_all
qed

lemma proto_call_on_initial_state:
  "extraWeights (updateModelWeights ''__proto__'' True initial_state)
     = [(''total'', None), (''wins'', None), (''recentAccuracy'', None)]"
proof -
  have l: "lookup_performance ''__proto__'' = ObjectPrototype"
    by (simp add: lookup_performance_def model_of_name_def)
  have t: "foldl js_add (Some 0)
             (map (\<lambda>m. Some (modelWeights initial_state m * 0.7
                 + ((if recentAccuracy (modelPerformance initial_state m) = 0 then 0.5
                     else recentAccuracy (modelPerformance initial_state m))
                    / foldl (\<lambda>sum m. sum + (if recentAccuracy (modelPerformance initial_state m) = 0
                          then 0.5 else recentAccuracy (modelPerformance initial_state m))) 0 models)
                   * 0.3)) models
              @ map snd (extraWeights initial_state)) = Some 1"
    by (simp add: initial_state_def models_def js_add_def INITIAL_WEIGHTS_def)
  show ?thesis
    unfolding updateModelWeights_def l perf_lookup.case Let_def t option.case
    by (simp add: initial_state_def)
qed

text \<open>A call with the name of an inherited method is not ignored either: it blends the weights.\<close>

lemma inherited_method_call_on_initial_state:
  "lookup_performance ''constructor'' = PrototypeMethod
   \<and> modelWeights (updateModelWeights ''constructor'' True initial_state) Pattern = 31 / 200
   \<and> modelWeights (updateModelWeights ''constructor'' True initial_state) Neural = 19 / 100"
proof -
  have l: "lookup_performance ''constructor'' = PrototypeMethod"
    by (simp add: lookup_performance_def model_of_name_def Object_prototype_methods_def)
  have t: "foldl js_add (Some 0)
             (map (\<lambda>m. Some (modelWeights initial_state m * 0.7
                 + ((if recentAccuracy (modelPerformance initial_state m) = 0 then 0.5
                     else recentAccuracy (modelPerformance initial_state m))
                    / foldl (\<lambda>sum m. sum + (if recentAccuracy (modelPerformance initial_state m) = 0
                          then 0.5 else recentAccuracy (modelPerformance initial_state m))) 0 models)
                   * 0.3)) models
              @ map snd (extraWeights initial_state)) = Some 1"
    by (simp add: initial_state_def models_def js_add_def INITIAL_WEIGHTS_def)
  have "modelWeights (updateModelWeights ''constructor'' True initial_state) Pattern = 31 / 200"
    and "modelWeights (updateModelWeights ''constructor'' True initial_state) Neural = 19 / 100"
    unfolding updateModelWeights_def l perf_lookup.case Let_def t option.case
    by (simp_all add: initial_state_def models_def INITIAL_WEIGHTS_def)
  with l show ?thesis by simp
qed

text \<open>
  Claim C3 does not hold of the code. The guard of \<^verbatim>\<open>updateModelWeights\<close> lets an inherited
  key through: after a call with the name \<^verbatim>\<open>__proto__\<close> the weight object holds three
  more keys with the value \<^verbatim>\<open>NaN\<close>, and the next call with a known model name, here
  \<^verbatim>\<open>markov\<close>, finds a total that is not greater than 0 and leaves each of the six weights
  at 0.15: they sum to 0.9, not to 1.
\<close>

theorem C3_inherited_key_breaks_sum:
  "model_of_name ''markov'' = Some Markov
   \<and> lookup_performance ''__proto__'' = ObjectPrototype
   \<and> extraWeights (updateModelWeights ''__proto__'' True initial_state)
       = [(''total'', None), (''wins'', None), (''recentAccuracy'', None)]
   \<and> list_all (\<lambda>m. modelWeights
         (adapt [(''__proto__'', True), (''markov'', False)] initial_state) m = 0.15) models
   \<and> weight_sum (adapt [(''__proto__'', True), (''markov'', False)] initial_state) = 9 / 10"
proof -
  have k: "model_of_name ''markov'' = Some Markov"
    by (simp add: model_of_name_def)
  have l: "lookup_performance ''__proto__'' = ObjectPrototype"
    by (simp add: lookup_performance_def model_of_name_def)
  have w: "modelWeights (adapt [(''__proto__'', True), (''markov'', False)] initial_state) m = 0.15"
    for m
    unfolding adapt_def
    by (simp add: updateModelWeights_NaN lookup_known [OF k] proto_call_on_initial_state)
  have s: "weight_sum (adapt [(''__proto__'', True), (''markov'', False)] initial_state) = 9 / 10"
    unfolding weight_sum_def models_def by (simp add: w)
  show ?thesis
    using k l s proto_call_on_initial_state by (simp add: list_all_models w)
qed

section \<open>Ensemble: full agreement\<close>

lemma length_filter_all: "length (filter P xs) = length xs \<longleftrightarrow> (\<forall>x\<in>set xs. P x)"
proof (induction xs)
  case Nil
  then show ?case by simp
next
  case (Cons x xs)
  show ?case
  proof (cases "P x")
    case True
    then show ?thesis using Cons by simp
  next
    case False
    have "length (filter P xs) < Suc (length xs)"
      by (rule le_imp_less_Suc) (rule length_filter_le)
    then show ?thesis using False by simp
  qed
qed

lemma agreement_one:
  assumes "agreement_of preds = 1"
  shows "(\<forall>m. pred.prediction (preds m) = BIG) \<or> (\<forall>m. pred.prediction (preds m) \<noteq> BIG)"
proof -
  define votes where "votes = map preds models"
  define b where "b = length (filter (\<lambda>p. pred.prediction p = BIG) votes)"
  have len: "length votes = 6" by (simp add: votes_def models_def)
  have ble: "b \<le> 6" unfolding b_def len [symmetric] by (rule length_filter_le)
  from assms have "real (max b (length votes - b)) / real (length votes) = 1"
    unfolding agreement_of_def Let_def votes_def [symmetric] b_def [symmetric]
    by (simp add: len)
  then have "real (max b (6 - b)) = 6" by (simp add: len)
  then have "max b (6 - b) = 6" by linarith
  then have "b = 6 \<or> b = 0" using ble by (auto simp: max_def split: if_splits)
  then show ?thesis
  proof
    assume "b = 6"
    then have "length (filter (\<lambda>p. pred.prediction p = BIG) votes) = length votes"
      using len by (simp add: b_def)
    then have "\<forall>p\<in>set votes. pred.prediction p = BIG" by (simp only: length_filter_all)
    then have "list_all (\<lambda>m. pred.prediction (preds m) = BIG) models"
      by (simp add: list_all_iff votes_def)
    then show ?thesis by (simp add: list_all_models)
  next
    assume "b = 0"
    then have "\<forall>p\<in>set votes. pred.prediction p \<noteq> BIG"
      by (simp add: b_def filter_empty_conv)
    then have "list_all (\<lambda>m. pred.prediction (preds m) \<noteq> BIG) models"
      by (simp add: list_all_iff votes_def)
    then show ?thesis by (simp add: list_all_models)
  qed
qed

lemma scores_all_big:
  "(\<forall>m. pred.prediction (preds m) = BIG) \<Longrightarrow> snd (scores preds w) = 0"
  by (simp add: scores_def models_def Let_def)

lemma scores_all_small:
  "(\<forall>m. pred.prediction (preds m) \<noteq> BIG) \<Longrightarrow> fst (scores preds w) = 0"
  by (simp add: scores_def models_def Let_def)

lemma raw_of_agreement:
  assumes "agreement_of preds = 1"
  shows "rawConfidence_of (scores preds w) = 1 \<or> rawConfidence_of (scores preds w) = 0.5"
proof -
  obtain a b where s: "scores preds w = (a, b)" by (cases "scores preds w")
  from agreement_one [OF assms] have "b = 0 \<or> a = 0"
    using scores_all_big [of preds w] scores_all_small [of preds w] s by auto
  then show ?thesis
    by (auto simp: s rawConfidence_of_def Let_def)
qed

lemma final_of_full_agreement:
  assumes "truthy (isExploitable (marketState st))" and "consecutiveLosses st = 0"
  shows "finalConfidence_of 1 1 st = 0.92"
  using assms by (simp add: finalConfidence_of_def Let_def)

lemma combine_ultra:
  assumes "agreement_of preds = 1"
    and "truthy (isExploitable (marketState st))"
    and "consecutiveLosses st = 0"
    and "0.78 \<le> rawConfidence_of (scores preds (modelWeights st))"
  shows "tier (combine preds st) = ULTRA_HIGH"
proof -
  have "rawConfidence_of (scores preds (modelWeights st)) = 1"
    using raw_of_agreement [OF assms(1), of "modelWeights st"] assms(4) by auto
  then show ?thesis
    using assms(1) final_of_full_agreement [OF assms(2,3)]
    by (simp add: combine_def Let_def tier_of_def)
qed

lemma predictWithLSTM_frame:
  assumes "predictWithLSTM rnd data st = Inr (p, st')"
  shows "st' = st\<lparr>lstmCell := lstmCell st'\<rparr>"
  using assms
  by (auto simp: predictWithLSTM_def Let_def split: option.splits if_splits sum.splits prod.splits)

lemma generate_result:
  assumes "generateEnsemblePrediction rnd data st = Inr (d, st')"
  shows "\<exists>preds. d = combine preds st' \<and> st' = st\<lparr>lstmCell := lstmCell st'\<rparr>"
  using assms
  by (auto simp: generateEnsemblePrediction_def Let_def split: sum.splits prod.splits
      dest: predictWithLSTM_frame)

lemma agree_pattern:
  "predictWithPatterns agree_data agree_state
     = \<lparr> pred.prediction = BIG, pred.confidence = 0.52, source = ''pattern_fallback'' \<rparr>"
  by (simp add: predictWithPatterns_def pattern_step_def agree_data_def agree_state_def
      initial_state_def SEQUENCE_LENGTHS_def rec2_def rec7_def Let_def)

lemma agree_markov:
  "predictWithMarkov agree_data agree_state
     = Inr \<lparr> pred.prediction = BIG, pred.confidence = 0.51, source = ''markov_fallback'' \<rparr>"
  by (simp add: predictWithMarkov_def MARKOV_ORDER_def agree_data_def agree_state_def
      initial_state_def rec2_def rec7_def Let_def upt_rec)

lemma agree_frequency:
  "predictWithFrequency agree_data
     = \<lparr> pred.prediction = BIG, pred.confidence = 0.50, source = ''frequency_insufficient'' \<rparr>"
  by (simp add: predictWithFrequency_def agree_data_def Let_def)

lemma agree_lstm:
  "predictWithLSTM zero_rnd agree_data agree_state
     = Inr (\<lparr> pred.prediction = BIG, pred.confidence = 0.50, source = ''lstm_uninitialized'' \<rparr>,
            agree_after)"
  by (simp add: predictWithLSTM_def agree_after_def agree_state_def initial_state_def)

lemma agree_trend:
  "predictWithTrend agree_data agree_after
     = \<lparr> pred.prediction = BIG, pred.confidence = 0.78, source = ''trend'' \<rparr>"
proof -
  have "trendAnalyzer agree_after
          = \<lparr> shortTerm = [Some 1], mediumTerm = [Some 1], longTerm = [Some 1] \<rparr>"
    by (simp add: agree_after_def agree_state_def)
  then show ?thesis
    unfolding predictWithTrend_def Let_def by simp
qed

lemma agree_quantum:
  "predictWithQuantum agree_data agree_after
     = \<lparr> pred.prediction = BIG, pred.confidence = 43 / 60, source = ''quantum'' \<rparr>"
  by (simp add: predictWithQuantum_def agree_after_def agree_state_def agree_data_def
      initial_state_def rec2_def rec7_def Let_def)

lemma agree_generate:
  "generateEnsemblePrediction zero_rnd agree_data agree_state
     = Inr (combine agree_outputs agree_after, agree_after)"
  by (simp add: generateEnsemblePrediction_def agree_markov agree_lstm agree_pattern
      agree_frequency agree_trend agree_quantum Let_def agree_outputs_def [abs_def])

lemma agree_facts:
  "agreement_of agree_outputs = 1"
  "rawConfidence_of (scores agree_outputs (modelWeights agree_state)) = 1"
  "truthy (isExploitable (marketState agree_state))"
  "consecutiveLosses agree_state = 0"
  by (simp_all add: agreement_of_def scores_def rawConfidence_of_def agree_outputs_def
      models_def agree_state_def initial_state_def INITIAL_WEIGHTS_def truthy_def Let_def)

text \<open>
  Claim C5. When the six predictors agree, the market state is exploitable, there is no
  consecutive loss and the raw confidence is at least 0.78, the decision has the tier
  \<^verbatim>\<open>ULTRA_HIGH\<close>. (With full agreement all the score is on one side, so the raw confidence
  is 1, and the shaped confidence reaches the clamp 0.92 whatever the volatility and the
  win streak.)
\<close>

theorem C5_full_agreement_ultra_high:
  assumes "generateEnsemblePrediction rnd data st = Inr (d, st')"
    and "agreement_of (modelOutputs d) = 1"
    and "truthy (isExploitable (marketState st))"
    and "consecutiveLosses st = 0"
    and "0.78 \<le> rawConfidence_of (scores (modelOutputs d) (modelWeights st))"
  shows "tier d = ULTRA_HIGH"
proof -
  from generate_result [OF assms(1)] obtain preds where
    d: "d = combine preds st'" and st': "st' = st\<lparr>lstmCell := lstmCell st'\<rparr>"
    by blast
  have out: "modelOutputs d = preds" by (simp add: d combine_def Let_def)
  have same: "marketState st' = marketState st" "consecutiveLosses st' = consecutiveLosses st"
    "modelWeights st' = modelWeights st"
    by (subst st', simp)+
  show ?thesis
    unfolding d
    by (rule combine_ultra) (use assms out same in simp_all)
qed

theorem C5_full_agreement_ultra_high_witness:
  "generateEnsemblePrediction zero_rnd agree_data agree_state
     = Inr (combine agree_outputs agree_after, agree_after)
   \<and> agreement_of (modelOutputs (combine agree_outputs agree_after)) = 1
   \<and> truthy (isExploitable (marketState agree_state))
   \<and> consecutiveLosses agree_state = 0
   \<and> 0.78 \<le> rawConfidence_of
        (scores (modelOutputs (combine agree_outputs agree_after)) (modelWeights agree_state))
   \<and> tier (combine agree_outputs agree_after) = ULTRA_HIGH"
proof -
  have out: "modelOutputs (combine agree_outputs agree_after) = agree_outputs"
    by (simp add: combine_def Let_def)
  have "tier (combine agree_outputs agree_after) = ULTRA_HIGH"
    by (rule C5_full_agreement_ultra_high [OF agree_generate])
      (simp_all add: out agree_facts)
  then show ?thesis
    by (simp add: agree_generate out agree_facts)
qed

section \<open>Prediction is total on a non-empty buffer\<close>

lemma predictWithMarkov_nonempty:
  assumes "data \<noteq> []"
  shows "\<exists>p. predictWithMarkov data st = Inr p"
proof (cases data)
  case Nil
  with assms show ?thesis by simp
next
  case (Cons d0 ds)
  then show ?thesis
    by (simp add: predictWithMarkov_def split: option.splits)
qed

lemma predictWithMarkov_fallback:
  assumes "data \<noteq> []"
    and "markov_try (markovChains st) data (rev [1..<MARKOV_ORDER + 1]) = None"
  shows "predictWithMarkov data st
           = Inr \<lparr> pred.prediction = (if bigSmall (hd data) = BIG then SMALL else BIG),
                   pred.confidence = 0.51, source = ''markov_fallback'' \<rparr>"
  using assms by (cases data) (simp_all add: predictWithMarkov_def)

lemma predictWithMarkov_empty: "predictWithMarkov [] st = Inl TypeError"
  by (simp add: predictWithMarkov_def MARKOV_ORDER_def upt_rec)

lemma lstm_loop_total:
  assumes "list_all (rows_present c) js"
  shows "\<exists>hs cs. lstm_loop c input js = Inr (hs, cs) \<and> length hs = length js"
  using assms
proof (induction js)
  case Nil
  then show ?case by simp
next
  case (Cons j js)
  then obtain hs cs where rest: "lstm_loop c input js = Inr (hs, cs)" "length hs = length js"
    by auto
  from Cons.prems have "rows_present c j" by simp
  then obtain h cc where "lstm_unit c input j = Inr (h, cc)"
    unfolding lstm_unit_def Let_def by simp
  with rest show ?case by simp
qed

lemma forwardLSTM_total:
  assumes "cell_shaped c"
  shows "\<exists>hid c'. forwardLSTM c input = Inr (hid, c') \<and> cell_shaped c'"
proof -
  from lstm_loop_total [OF assms [unfolded cell_shaped_def], of input]
  obtain hs cs where loop: "lstm_loop c input [0..<length (hidden c)] = Inr (hs, cs)"
    and len: "length hs = length (hidden c)"
    by auto
  have "rows_present (c\<lparr>hidden := hs, cell := cs\<rparr>) = rows_present c"
    by (rule ext) (simp add: rows_present_def)
  then have "cell_shaped (c\<lparr>hidden := hs, cell := cs\<rparr>)"
    using assms len by (simp add: cell_shaped_def)
  then show ?thesis
    by (simp add: forwardLSTM_def loop)
qed

lemma createLSTMCell_shaped: "cell_shaped (createLSTMCell rnd inputSize hiddenSize)"
  unfolding cell_shaped_def createLSTMCell_def Let_def
  by (simp add: rows_present_def list_all_iff)

lemma predictWithLSTM_total:
  assumes "cell_ok st"
  shows "\<exists>p st'. predictWithLSTM rnd data st = Inr (p, st') \<and> cell_ok st'"
proof (cases "lstmCell st")
  case None
  then show ?thesis
    by (simp add: predictWithLSTM_def cell_ok_def createLSTMCell_shaped)
next
  case (Some c)
  with assms have shaped: "cell_shaped c" by (simp add: cell_ok_def)
  show ?thesis
  proof (cases "length data < 20")
    case True
    then show ?thesis using Some assms by (simp add: predictWithLSTM_def)
  next
    case False
    from forwardLSTM_total [OF shaped, of "map real (take 20 (map binary data))"]
    obtain hid c' where "forwardLSTM c (map real (take 20 (map binary data))) = Inr (hid, c')"
      and "cell_shaped c'"
      by auto
    then show ?thesis
      using Some False unfolding predictWithLSTM_def Let_def
      by (simp add: cell_ok_def)
  qed
qed

lemma cell_ok_initial: "cell_ok initial_state"
  by (simp add: cell_ok_def initial_state_def)

lemma predictWithFrequency_insufficient:
  "length data < 10 \<Longrightarrow>
     predictWithFrequency data
       = \<lparr> pred.prediction = BIG, pred.confidence = 0.50, source = ''frequency_insufficient'' \<rparr>"
  unfolding predictWithFrequency_def Let_def by simp

lemma generate_empty_buffer: "generateEnsemblePrediction rnd [] st = Inl TypeError"
  unfolding generateEnsemblePrediction_def Let_def by (simp add: predictWithMarkov_empty)

text \<open>
  Claim C1. On a buffer of at least one record, with the recurrent cell absent or of the
  shape \<^verbatim>\<open>createLSTMCell\<close> builds, \<^verbatim>\<open>generateEnsemblePrediction\<close> returns a decision and
  throws nothing, whatever the tables, the market state and the streak counters hold, and
  it leaves the cell in that shape for the next call. The two predictors that can throw,
  \<^verbatim>\<open>predictWithMarkov\<close> and \<^verbatim>\<open>predictWithLSTM\<close>, return as well; the other four are total
  functions. Where no Markov order qualifies the answer is the negated last label with
  confidence 0.51, and below 10 records the frequency model answers BIG with 0.50.
\<close>

theorem C1_prediction_total:
  assumes "data \<noteq> []" and "cell_ok st"
  shows "(\<exists>d st'. generateEnsemblePrediction rnd data st = Inr (d, st') \<and> cell_ok st')
         \<and> (\<exists>p. predictWithMarkov data st = Inr p)
         \<and> (\<exists>p st'. predictWithLSTM rnd data st = Inr (p, st') \<and> cell_ok st')
         \<and> (markov_try (markovChains st) data (rev [1..<MARKOV_ORDER + 1]) = None \<longrightarrow>
              predictWithMarkov data st
                = Inr \<lparr> pred.prediction = (if bigSmall (hd data) = BIG then SMALL else BIG),
                        pred.confidence = 0.51, source = ''markov_fallback'' \<rparr>)
         \<and> (length data < 10 \<longrightarrow>
              predictWithFrequency data
                = \<lparr> pred.prediction = BIG, pred.confidence = 0.50,
                    source = ''frequency_insufficient'' \<rparr>)"
proof -
  from predictWithMarkov_nonempty [OF assms(1)]
  obtain m where m: "predictWithMarkov data st = Inr m" by auto
  from predictWithLSTM_total [OF assms(2)]
  obtain n st' where n: "predictWithLSTM rnd data st = Inr (n, st')" and ok: "cell_ok st'"
    by blast
  have "\<exists>d. generateEnsemblePrediction rnd data st = Inr (d, st')"
    unfolding generateEnsemblePrediction_def Let_def by (simp add: m n)
  with ok have g: "\<exists>d st'. generateEnsemblePrediction rnd data st = Inr (d, st') \<and> cell_ok st'"
    by blast
  have l: "\<exists>p st'. predictWithLSTM rnd data st = Inr (p, st') \<and> cell_ok st'"
    using n ok by blast
  show ?thesis
    using g m l predictWithMarkov_fallback [OF assms(1)] predictWithFrequency_insufficient
    by blast
qed

theorem C1_prediction_total_witness:
  "[rec7] \<noteq> [] \<and> cell_ok initial_state
   \<and> (\<exists>d st'. generateEnsemblePrediction zero_rnd [rec7] initial_state = Inr (d, st')
        \<and> cell_ok st')
   \<and> (\<exists>p. predictWithMarkov [rec7] initial_state = Inr p)"
  using C1_prediction_total [of "[rec7]" initial_state zero_rnd] cell_ok_initial
  by simp

section \<open>Training failures\<close>

lemma map_field_null: "Null \<in> set data \<Longrightarrow> map_field f data = Inl TypeError"
proof (induction data)
  case Nil
  then show ?case by simp
next
  case (Cons d ds)
  then show ?case by (cases d) auto
qed

lemma map_field_no_null: "Null \<notin> set data \<Longrightarrow> map_field f data = Inr (map (field_of f) data)"
proof (induction data)
  case Nil
  then show ?case by simp
next
  case (Cons d ds)
  then show ?case by (cases d) (simp_all add: field_of_def)
qed

lemma trainPatternRecognition_null:
  "Null \<in> set data \<Longrightarrow> trainPatternRecognition data st = (Some TypeError, st)"
  by (simp add: trainPatternRecognition_def map_field_null)

lemma trainPatternRecognition_no_null:
  "Null \<notin> set data \<Longrightarrow>
     trainPatternRecognition data st
       = (None, st\<lparr>patternDatabase := pattern_pass (map (field_of number) data)\<rparr>)"
  by (simp add: trainPatternRecognition_def map_field_no_null)

lemma trainTrendAnalyzer_no_null:
  "Null \<notin> set data \<Longrightarrow> fst (trainTrendAnalyzer data st) = None"
  by (simp add: trainTrendAnalyzer_def map_field_no_null)

lemma analyzeMarketState_no_null:
  assumes "Null \<notin> set data"
  shows "\<exists>ms. fst (analyzeMarketState now data st) = Inr ms"
proof -
  have "Null \<notin> set (take (min 50 (length data)) data)"
    using assms by (auto dest: in_set_takeD)
  then show ?thesis
    unfolding analyzeMarketState_def Let_def by (simp add: map_field_no_null)
qed

lemma train_steps_null:
  "Null \<in> set data \<Longrightarrow> train_steps now data st = (Some TypeError, st)"
  by (simp add: train_steps_def trainPatternRecognition_null)

text \<open>
  On an array without a null element only \<^verbatim>\<open>trainMarkovChains\<close> can throw (on a hole it
  reads), after the pattern table has been rebuilt and its own table cleared.
\<close>

lemma train_steps_no_null:
  assumes nn: "Null \<notin> set data" and thr: "fst (train_steps now data st) = Some e"
  shows "train_steps now data st
           = (Some e, st\<lparr>patternDatabase := pattern_pass (map (field_of number) data),
                          markovChains :=
                            snd (markov_loop data (markov_iterations (length data)) Map.empty)\<rparr>)"
proof -
  define st1 where "st1 = st\<lparr>patternDatabase := pattern_pass (map (field_of number) data)\<rparr>"
  obtain err tbl where ml: "markov_loop data (markov_iterations (length data)) Map.empty = (err, tbl)"
    by (cases "markov_loop data (markov_iterations (length data)) Map.empty")
  have p: "trainPatternRecognition data st = (None, st1)"
    unfolding st1_def using nn by (rule trainPatternRecognition_no_null)
  have m: "trainMarkovChains data st1 = (err, st1\<lparr>markovChains := tbl\<rparr>)"
    by (simp add: trainMarkovChains_def ml)
  show ?thesis
  proof (cases err)
    case None
    obtain st3 where 3: "trainTrendAnalyzer data (st1\<lparr>markovChains := tbl\<rparr>) = (None, st3)"
      using trainTrendAnalyzer_no_null [OF nn, of "st1\<lparr>markovChains := tbl\<rparr>"]
      by (cases "trainTrendAnalyzer data (st1\<lparr>markovChains := tbl\<rparr>)") simp
    obtain ms st4 where 4: "analyzeMarketState now data st3 = (Inr ms, st4)"
      using analyzeMarketState_no_null [OF nn, of now st3]
      by (cases "analyzeMarketState now data st3") auto
    have "fst (train_steps now data st) = None"
      by (simp add: train_steps_def p m None 3 4)
    with thr show ?thesis by simp
  next
    case (Some e')
    then have "train_steps now data st = (Some e', st1\<lparr>markovChains := tbl\<rparr>)"
      by (simp add: train_steps_def p m)
    with thr show ?thesis by (simp add: st1_def ml)
  qed
qed

lemma trainMarkovChains_alone_clears:
  "trainMarkovChains [Null, Null] st = (Some TypeError, st\<lparr>markovChains := Map.empty\<rparr>)"
  by (simp add: trainMarkovChains_def markov_iterations_def MARKOV_ORDER_def markov_step_def
      upt_rec)

text \<open>
  Claim C4, as stated, fails: nothing restores the tables. On the sparse array of a record,
  a hole and a record, \<^verbatim>\<open>trainPatternRecognition\<close> skips the hole, clears the pattern table
  and finds no window to enter; \<^verbatim>\<open>trainMarkovChains\<close> clears its table and throws when it
  reads the hole. \<^verbatim>\<open>trainAllModels\<close> returns \<^verbatim>\<open>false\<close> and both tables, trained before, are
  empty.
\<close>

theorem C4_no_rollback_counterexample:
  "\<not> isTraining trained_state
   \<and> fst (train_steps 0 sparse_data (trained_state\<lparr>isTraining := True\<rparr>)) = Some TypeError
   \<and> fst (trainAllModels 0 sparse_data trained_state) = False
   \<and> patternDatabase trained_state ''123'' \<noteq> None
   \<and> markovChains trained_state ''7'' \<noteq> None
   \<and> patternDatabase (snd (trainAllModels 0 sparse_data trained_state)) = Map.empty
   \<and> markovChains (snd (trainAllModels 0 sparse_data trained_state)) = Map.empty
   \<and> snd (trainAllModels 0 sparse_data trained_state) \<noteq> trained_state"
proof -
  have t: "train_steps 0 sparse_data (trained_state\<lparr>isTraining := True\<rparr>)
             = (Some TypeError, trained_state\<lparr>isTraining := True, patternDatabase := Map.empty,
                                              markovChains := Map.empty\<rparr>)"
    by (simp add: train_steps_def trainPatternRecognition_def trainMarkovChains_def
        pattern_pass_def SEQUENCE_LENGTHS_def markov_iterations_def MARKOV_ORDER_def
        markov_step_def sparse_data_def upt_rec)
  have n: "\<not> isTraining trained_state"
    by (simp add: trained_state_def initial_state_def)
  have r: "trainAllModels 0 sparse_data trained_state
             = (False, trained_state\<lparr>isTraining := False, patternDatabase := Map.empty,
                                      markovChains := Map.empty\<rparr>)"
    using n by (simp add: trainAllModels_def t)
  have p: "patternDatabase trained_state ''123'' \<noteq> None"
    and m: "markovChains trained_state ''7'' \<noteq> None"
    by (simp_all add: trained_state_def tie_table_def)
  have "patternDatabase (snd (trainAllModels 0 sparse_data trained_state)) ''123'' = None"
    by (simp add: r)
  with p have "snd (trainAllModels 0 sparse_data trained_state) \<noteq> trained_state"
    by auto
  with n p m show ?thesis by (simp add: t r)
qed

text \<open>
  Claim C4, amended. When a sub-step of a training pass throws, \<^verbatim>\<open>trainAllModels\<close> returns
  \<^verbatim>\<open>false\<close> and the flag \<^verbatim>\<open>isTraining\<close> is released; the trend windows and the market state
  are the ones the pass found. The tables are not rolled back. When the array holds a null
  element, the exception comes from the first statement of \<^verbatim>\<open>trainPatternRecognition\<close> and
  the whole state is unchanged. Otherwise the pattern table is the one rebuilt from the new
  array and the Markov table holds what \<^verbatim>\<open>trainMarkovChains\<close> wrote, after clearing it,
  before the exception.
\<close>

theorem C4_training_failure:
  assumes "\<not> isTraining st"
    and "fst (train_steps now data (st\<lparr>isTraining := True\<rparr>)) = Some e"
  shows "fst (trainAllModels now data st) = False
         \<and> isTraining (snd (trainAllModels now data st)) = False
         \<and> trendAnalyzer (snd (trainAllModels now data st)) = trendAnalyzer st
         \<and> marketState (snd (trainAllModels now data st)) = marketState st
         \<and> (Null \<in> set data \<longrightarrow> snd (trainAllModels now data st) = st)
         \<and> (Null \<notin> set data \<longrightarrow>
              snd (trainAllModels now data st)
                = st\<lparr>patternDatabase := pattern_pass (map (field_of number) data),
                      markovChains :=
                        snd (markov_loop data (markov_iterations (length data)) Map.empty)\<rparr>)"
proof (cases "Null \<in> set data")
  case True
  then have "train_steps now data (st\<lparr>isTraining := True\<rparr>)
               = (Some TypeError, st\<lparr>isTraining := True\<rparr>)"
    by (rule train_steps_null)
  then have "trainAllModels now data st = (False, st\<lparr>isTraining := False\<rparr>)"
    using assms(1) by (simp add: trainAllModels_def)
  moreover have "st\<lparr>isTraining := False\<rparr> = st"
    using assms(1) by simp
  ultimately show ?thesis using assms(1) True by simp
next
  case False
  from train_steps_no_null [OF False assms(2)]
  have "trainAllModels now data st
          = (False, st\<lparr>isTraining := True,
                        patternDatabase := pattern_pass (map (field_of number) data),
                        markovChains :=
                          snd (markov_loop data (markov_iterations (length data)) Map.empty),
                        isTraining := False\<rparr>)"
    using assms(1) by (simp add: trainAllModels_def)
  moreover have "st\<lparr>isTraining := True,
                    patternDatabase := pattern_pass (map (field_of number) data),
                    markovChains :=
                      snd (markov_loop data (markov_iterations (length data)) Map.empty),
                    isTraining := False\<rparr>
                 = st\<lparr>patternDatabase := pattern_pass (map (field_of number) data),
                      markovChains :=
                        snd (markov_loop data (markov_iterations (length data)) Map.empty)\<rparr>"
    using assms(1) by simp
  ultimately show ?thesis using False assms(1) by simp
qed

theorem C4_training_failure_witness:
  "\<not> isTraining trained_state
   \<and> fst (train_steps 0 [Rec rec7, Null] (trained_state\<lparr>isTraining := True\<rparr>)) = Some TypeError
   \<and> trainAllModels 0 [Rec rec7, Null] trained_state = (False, trained_state)
   \<and> fst (train_steps 0 sparse_data (trained_state\<lparr>isTraining := True\<rparr>)) = Some TypeError
   \<and> fst (trainAllModels 0 sparse_data trained_state) = False
   \<and> isTraining (snd (trainAllModels 0 sparse_data trained_state)) = False
   \<and> trendAnalyzer (snd (trainAllModels 0 sparse_data trained_state)) = trendAnalyzer trained_state
   \<and> marketState (snd (trainAllModels 0 sparse_data trained_state)) = marketState trained_state"
proof -
  have a: "\<not> isTraining trained_state"
    by (simp add: trained_state_def initial_state_def)
  have b: "fst (train_steps 0 [Rec rec7, Null] (trained_state\<lparr>isTraining := True\<rparr>))
             = Some TypeError"
    by (simp add: train_steps_def trainPatternRecognition_def)
  have c: "fst (train_steps 0 sparse_data (trained_state\<lparr>isTraining := True\<rparr>)) = Some TypeError"
    by (simp add: train_steps_def trainPatternRecognition_def trainMarkovChains_def
        pattern_pass_def SEQUENCE_LENGTHS_def markov_iterations_def MARKOV_ORDER_def
        markov_step_def sparse_data_def upt_rec)
  from C4_training_failure [OF a b] C4_training_failure [OF a c] a b c show ?thesis
    by (simp add: prod_eq_iff)
qed


end
